theory Spec2Isabelle
  imports Complex_Main "HOL-Library.Char_ord" "HOL-Library.List_Lexorder"
begin

text \<open>
  A shallow embedding of the inxi parser of big-hardware-info
  (\<^verbatim>\<open>src/app/collectors/inxi_parser.py\<close>, class \<^verbatim>\<open>InxiParser\<close>), followed by the
  properties of it that the specification states. The first part translates the
  source, method by method and in the order of the file; the second part proves.
\<close>

section \<open>Python values\<close>

text \<open>
  The parser receives what \<^verbatim>\<open>json.loads\<close> returns and builds dictionaries and lists
  from it. A value is \<^verbatim>\<open>None\<close>, a bool, an int (unbounded), a float, a string, a list
  or a dictionary. Dictionaries keep their insertion order and are association lists.
  The objects of a JSON document and the records the parser builds have string keys
  (\<open>PDict\<close>). Two dictionaries of the parser are keyed by other values, and are
  \<open>PMap\<close>: \<^verbatim>\<open>core_speeds\<close> of the CPU record (int keys) and \<^verbatim>\<open>packages\<close> of the
  repos record (keyed by whatever the \<^verbatim>\<open>pm\<close> field holds). A float is modelled by
  the rational number it stands for: rounding to the nearest double, infinities and
  NaN are outside the model.
\<close>

datatype pyval =
    PNone
  | PBool bool
  | PInt int
  | PFloat rat
  | PStr string
  | PList "pyval list"
  | PDict "(string \<times> pyval) list"
  | PMap "(pyval \<times> pyval) list"

type_synonym pydict = "(string \<times> pyval) list"

text \<open>The exceptions the parser can let escape.\<close>

datatype exn = AttributeError | TypeError | ValueError

text \<open>Sequencing of computations that may raise: the first exception wins.\<close>

definition bindE :: "exn + 'a \<Rightarrow> ('a \<Rightarrow> exn + 'b) \<Rightarrow> exn + 'b" where
  "bindE m f = (case m of Inl e \<Rightarrow> Inl e | Inr x \<Rightarrow> f x)"

text \<open>A \<^verbatim>\<open>for\<close> loop whose body may raise, threading the loop's variables.\<close>

fun foldE :: "('s \<Rightarrow> 'a \<Rightarrow> exn + 's) \<Rightarrow> 's \<Rightarrow> 'a list \<Rightarrow> exn + 's" where
  "foldE f s [] = Inr s"
| "foldE f s (x # xs) = (case f s x of Inl e \<Rightarrow> Inl e | Inr s' \<Rightarrow> foldE f s' xs)"

subsection \<open>Dictionaries\<close>

text \<open>\<^verbatim>\<open>k in d\<close>, \<^verbatim>\<open>d.get(k, default)\<close> and \<^verbatim>\<open>d[k] = v\<close> (an existing key keeps its place).\<close>

definition dhas :: "('k \<times> 'v) list \<Rightarrow> 'k \<Rightarrow> bool" where
  "dhas d k = (map_of d k \<noteq> None)"

definition dget :: "('k \<times> 'v) list \<Rightarrow> 'k \<Rightarrow> 'v \<Rightarrow> 'v" where
  "dget d k dflt = (case map_of d k of Some v \<Rightarrow> v | None \<Rightarrow> dflt)"

fun dset :: "('k \<times> 'v) list \<Rightarrow> 'k \<Rightarrow> 'v \<Rightarrow> ('k \<times> 'v) list" where
  "dset [] k v = [(k, v)]"
| "dset ((k', v') # d) k v = (if k' = k then (k, v) # d else (k', v') # dset d k v)"

text \<open>\<^verbatim>\<open>d.update(other)\<close>.\<close>

fun dupdate :: "('k \<times> 'v) list \<Rightarrow> ('k \<times> 'v) list \<Rightarrow> ('k \<times> 'v) list" where
  "dupdate d [] = d"
| "dupdate d ((k, v) # other) = dupdate (dset d k v) other"

text \<open>
  \<^verbatim>\<open>d[k].append(x)\<close> for a key \<open>k\<close> of a record that the parser initialised with a
  list literal and never assigns again.
\<close>

fun list_items :: "pyval \<Rightarrow> pyval list" where
  "list_items (PList xs) = xs"
| "list_items _ = []"

definition dappend :: "pydict \<Rightarrow> string \<Rightarrow> pyval \<Rightarrow> pydict" where
  "dappend d k x = dset d k (PList (list_items (dget d k (PList [])) @ [x]))"

subsection \<open>Truth, equality, membership\<close>

text \<open>The truth value of an object, as \<^verbatim>\<open>if x:\<close> and \<^verbatim>\<open>not x\<close> test it.\<close>

fun truthy :: "pyval \<Rightarrow> bool" where
  "truthy PNone = False"
| "truthy (PBool b) = b"
| "truthy (PInt i) = (i \<noteq> 0)"
| "truthy (PFloat r) = (r \<noteq> 0)"
| "truthy (PStr s) = (s \<noteq> [])"
| "truthy (PList xs) = (xs \<noteq> [])"
| "truthy (PDict d) = (d \<noteq> [])"
| "truthy (PMap d) = (d \<noteq> [])"

text \<open>
  \<^verbatim>\<open>v in (None, "", [])\<close>: the values every section parser drops when it cleans an item.
\<close>

fun absent :: "pyval \<Rightarrow> bool" where
  "absent PNone = True"
| "absent (PStr s) = (s = [])"
| "absent (PList xs) = (xs = [])"
| "absent _ = False"

text \<open>Bools, ints and floats compare by their numeric value.\<close>

fun num_val :: "pyval \<Rightarrow> rat option" where
  "num_val (PBool b) = Some (if b then 1 else 0)"
| "num_val (PInt i) = Some (of_int i)"
| "num_val (PFloat r) = Some r"
| "num_val _ = None"

definition py_eq :: "pyval \<Rightarrow> pyval \<Rightarrow> bool" where
  "py_eq a b =
     (case num_val a of
        Some x \<Rightarrow> (case num_val b of Some y \<Rightarrow> x = y | None \<Rightarrow> False)
      | None \<Rightarrow> (case num_val b of Some y \<Rightarrow> False | None \<Rightarrow> a = b))"

text \<open>Lists and dictionaries cannot be members of a set or keys of a dictionary.\<close>

fun hashable :: "pyval \<Rightarrow> bool" where
  "hashable (PList xs) = False"
| "hashable (PDict d) = False"
| "hashable (PMap d) = False"
| "hashable _ = True"

text \<open>
  A dictionary keyed by hashable values: \<^verbatim>\<open>d[k] = v\<close> and \<^verbatim>\<open>d.get(k)\<close>, the keys
  compared as Python compares them.
\<close>

fun hset :: "(pyval \<times> 'v) list \<Rightarrow> pyval \<Rightarrow> 'v \<Rightarrow> (pyval \<times> 'v) list" where
  "hset [] k v = [(k, v)]"
| "hset ((k', v') # m) k v = (if py_eq k' k then (k', v) # m else (k', v') # hset m k v)"

fun hget :: "(pyval \<times> 'v) list \<Rightarrow> pyval \<Rightarrow> 'v option" where
  "hget [] k = None"
| "hget ((k', v) # m) k = (if py_eq k' k then Some v else hget m k)"

text \<open>\<^verbatim>\<open>x in seen\<close> for a set \<open>seen\<close>, kept as the list of its members.\<close>

definition set_member :: "pyval \<Rightarrow> pyval list \<Rightarrow> exn + bool" where
  "set_member x seen = (if hashable x then Inr (list_ex (py_eq x) seen) else Inl TypeError)"

text \<open>\<^verbatim>\<open>for x in v\<close>: what iterating over a value yields, \<^verbatim>\<open>TypeError\<close> when it cannot.\<close>

fun py_iter :: "pyval \<Rightarrow> exn + pyval list" where
  "py_iter (PList xs) = Inr xs"
| "py_iter (PStr s) = Inr (map (\<lambda>c. PStr [c]) s)"
| "py_iter (PDict d) = Inr (map (\<lambda>kv. PStr (fst kv)) d)"
| "py_iter (PMap d) = Inr (map fst d)"
| "py_iter _ = Inl TypeError"

section \<open>Python strings\<close>

text \<open>
  Python strings are modelled as \<^typ>\<open>string\<close>, the characters being the ASCII ones:
  case conversion and digits outside ASCII are not modelled.
\<close>

text \<open>\<^verbatim>\<open>s.split(sep)\<close> for a one-character separator: never the empty list.\<close>

fun py_split :: "char \<Rightarrow> string \<Rightarrow> string list" where
  "py_split sep [] = [[]]"
| "py_split sep (c # cs) =
     (if c = sep then [] # py_split sep cs
      else (case py_split sep cs of w # ws \<Rightarrow> (c # w) # ws | [] \<Rightarrow> [[c]]))"

text \<open>\<^verbatim>\<open>sub in s\<close> on strings: \<open>sub\<close> occurs as a contiguous substring of \<open>s\<close>.\<close>

fun starts_with :: "string \<Rightarrow> string \<Rightarrow> bool" where
  "starts_with [] s = True"
| "starts_with (p # ps) [] = False"
| "starts_with (p # ps) (c # cs) = (p = c \<and> starts_with ps cs)"

fun str_contains :: "string \<Rightarrow> string \<Rightarrow> bool" where
  "str_contains sub [] = (sub = [])"
| "str_contains sub (c # cs) = (starts_with sub (c # cs) \<or> str_contains sub cs)"

text \<open>\<^verbatim>\<open>s.lower()\<close> and \<^verbatim>\<open>s.upper()\<close>.\<close>

definition lower_char :: "char \<Rightarrow> char" where
  "lower_char c =
     (case map_of (zip ''ABCDEFGHIJKLMNOPQRSTUVWXYZ'' ''abcdefghijklmnopqrstuvwxyz'') c of
        Some l \<Rightarrow> l | None \<Rightarrow> c)"

definition upper_char :: "char \<Rightarrow> char" where
  "upper_char c =
     (case map_of (zip ''abcdefghijklmnopqrstuvwxyz'' ''ABCDEFGHIJKLMNOPQRSTUVWXYZ'') c of
        Some u \<Rightarrow> u | None \<Rightarrow> c)"

definition py_lower :: "string \<Rightarrow> string" where
  "py_lower s = map lower_char s"

definition py_upper :: "string \<Rightarrow> string" where
  "py_upper s = map upper_char s"

text \<open>
  \<^verbatim>\<open>v.lower()\<close> and \<^verbatim>\<open>v.upper()\<close> on a value read from an item: only a string has the
  method.
\<close>

fun val_lower :: "pyval \<Rightarrow> exn + string" where
  "val_lower (PStr s) = Inr (py_lower s)"
| "val_lower _ = Inl AttributeError"

fun val_upper :: "pyval \<Rightarrow> exn + string" where
  "val_upper (PStr s) = Inr (py_upper s)"
| "val_upper _ = Inl AttributeError"

subsection \<open>Digits and numbers\<close>

definition is_digit :: "char \<Rightarrow> bool" where
  "is_digit c = (c \<in> set ''0123456789'')"

definition digit_val :: "char \<Rightarrow> nat" where
  "digit_val c = (case map_of (zip ''0123456789'' [0 ..< 10]) c of Some d \<Rightarrow> d | None \<Rightarrow> 0)"

text \<open>\<^verbatim>\<open>s.isdigit()\<close>.\<close>

definition isdigit :: "string \<Rightarrow> bool" where
  "isdigit s = (s \<noteq> [] \<and> list_all is_digit s)"

text \<open>The number a run of decimal digits denotes.\<close>

definition nat_of_digits :: "string \<Rightarrow> nat" where
  "nat_of_digits s = foldl (\<lambda>n c. 10 * n + digit_val c) 0 s"

text \<open>
  The digits of an int literal as \<^verbatim>\<open>int(s)\<close> accepts them: decimal digits, with single
  underscores between digits. The flag says that the previous character was a digit.
\<close>

fun digits_us :: "bool \<Rightarrow> nat \<Rightarrow> string \<Rightarrow> nat option" where
  "digits_us p acc [] = (if p then Some acc else None)"
| "digits_us p acc (c # cs) =
     (if is_digit c then digits_us True (10 * acc + digit_val c) cs
      else if c = CHR ''_'' \<and> p \<and> cs \<noteq> [] \<and> is_digit (hd cs) then digits_us False acc cs
      else None)"

definition is_space :: "char \<Rightarrow> bool" where
  "is_space c = (c \<in> set [CHR '' '', CHR 0x09, CHR 0x0A, CHR 0x0B, CHR 0x0C, CHR 0x0D,
                           CHR 0x1C, CHR 0x1D, CHR 0x1E, CHR 0x1F])"

definition py_strip :: "string \<Rightarrow> string" where
  "py_strip s = rev (dropWhile is_space (rev (dropWhile is_space s)))"

text \<open>
  \<^verbatim>\<open>int(s)\<close> for a string: surrounding whitespace, an optional sign, digits.
  (CPython's limit of 4300 digits is not modelled.)
\<close>

definition int_of_text :: "string \<Rightarrow> exn + int" where
  "int_of_text s =
     (let t = py_strip s;
          neg = (t \<noteq> [] \<and> hd t = CHR ''-'');
          body = (if t \<noteq> [] \<and> (hd t = CHR ''-'' \<or> hd t = CHR ''+'') then tl t else t)
      in case digits_us False 0 body of
           None \<Rightarrow> Inl ValueError
         | Some n \<Rightarrow> Inr (if neg then - int n else int n))"

text \<open>\<^verbatim>\<open>int(v)\<close>: a float is truncated towards zero, a container is a \<^verbatim>\<open>TypeError\<close>.\<close>

fun py_int :: "pyval \<Rightarrow> exn + int" where
  "py_int (PInt i) = Inr i"
| "py_int (PBool b) = Inr (if b then 1 else 0)"
| "py_int (PFloat r) = Inr (if 0 \<le> r then \<lfloor>r\<rfloor> else \<lceil>r\<rceil>)"
| "py_int (PStr s) = int_of_text s"
| "py_int _ = Inl TypeError"

text \<open>
  \<^verbatim>\<open>float(s)\<close> on the texts the parser passes to it, which are runs of digits and
  dots cut out by a regular expression: digits with at most one dot and at least one
  digit; anything else is a \<^verbatim>\<open>ValueError\<close>.
\<close>

definition float_of_text :: "string \<Rightarrow> exn + rat" where
  "float_of_text s =
     (let ip = takeWhile is_digit s; rest = dropWhile is_digit s
      in if rest = [] then (if ip = [] then Inl ValueError else Inr (of_nat (nat_of_digits ip)))
         else if hd rest = CHR ''.'' \<and> list_all is_digit (tl rest) \<and> (ip \<noteq> [] \<or> tl rest \<noteq> [])
         then Inr (of_nat (nat_of_digits ip)
                   + of_nat (nat_of_digits (tl rest)) / 10 ^ length (tl rest))
         else Inl ValueError)"

text \<open>\<^verbatim>\<open>round(x, 1)\<close>: one decimal place, ties to the even digit.\<close>

definition round1 :: "rat \<Rightarrow> rat" where
  "round1 r =
     (let y = r * 10; f = \<lfloor>y\<rfloor>; d = y - of_int f
      in of_int (if d < 1 / 2 then f else if 1 / 2 < d then f + 1
                 else if even f then f else f + 1) / 10)"

text \<open>The decimal text of an int, as \<^verbatim>\<open>str(i)\<close> prints it.\<close>

function show_nat :: "nat \<Rightarrow> string" where
  "show_nat n =
     (if n < 10 then [''0123456789'' ! n]
      else show_nat (n div 10) @ [''0123456789'' ! (n mod 10)])"
  by pat_completeness auto
termination
  by (relation "measure (\<lambda>n. n)") auto

definition show_int :: "int \<Rightarrow> string" where
  "show_int i = (if i < 0 then CHR ''-'' # show_nat (nat (- i)) else show_nat (nat i))"

text \<open>
  \<^verbatim>\<open>str(v)\<close>. The text of a float and of a container is whatever \<open>repr\<close> gives;
  the parser only searches these texts, so \<open>repr\<close> is left as a parameter.
\<close>

fun py_str :: "(pyval \<Rightarrow> string) \<Rightarrow> pyval \<Rightarrow> string" where
  "py_str repr (PStr s) = s"
| "py_str repr (PInt i) = show_int i"
| "py_str repr PNone = ''None''"
| "py_str repr (PBool b) = (if b then ''True'' else ''False'')"
| "py_str repr v = repr v"

subsection \<open>The regular expressions of the parser\<close>

text \<open>
  Each \<^verbatim>\<open>re.search\<close> of the source is a function that returns group 1 of the leftmost
  match. In every pattern the character after the greedy run is outside the run's
  class, so the run of a match is the whole run that starts there.
\<close>

definition is_numch :: "char \<Rightarrow> bool" where
  "is_numch c = (is_digit c \<or> c = CHR ''.'')"

text \<open>\<^verbatim>\<open>(\d+)[- ]core\<close>\<close>

definition ncore_at :: "string \<Rightarrow> string option" where
  "ncore_at s =
     (let ds = takeWhile is_digit s; rest = dropWhile is_digit s
      in if ds \<noteq> [] \<and> rest \<noteq> [] \<and> (hd rest = CHR ''-'' \<or> hd rest = CHR '' '')
            \<and> starts_with ''core'' (tl rest)
         then Some ds else None)"

fun search_ncore :: "string \<Rightarrow> string option" where
  "search_ncore [] = None"
| "search_ncore (c # cs) =
     (case ncore_at (c # cs) of Some g \<Rightarrow> Some g | None \<Rightarrow> search_ncore cs)"

text \<open>\<^verbatim>\<open>([\d.]+)\<close>\<close>

definition search_num :: "string \<Rightarrow> string option" where
  "search_num s =
     (let r = dropWhile (\<lambda>c. \<not> is_numch c) s
      in if r = [] then None else Some (takeWhile is_numch r))"

text \<open>\<^verbatim>\<open>\(([\d.]+)%\)\<close>\<close>

definition percent_at :: "string \<Rightarrow> string option" where
  "percent_at s =
     (if s \<noteq> [] \<and> hd s = CHR ''(''
      then (let run = takeWhile is_numch (tl s); rest = dropWhile is_numch (tl s)
            in if run \<noteq> [] \<and> starts_with ''%)'' rest then Some run else None)
      else None)"

fun search_percent :: "string \<Rightarrow> string option" where
  "search_percent [] = None"
| "search_percent (c # cs) =
     (case percent_at (c # cs) of Some g \<Rightarrow> Some g | None \<Rightarrow> search_percent cs)"

text \<open>\<^verbatim>\<open>(\d+(?:\.\d+)?)\<close>\<close>

definition search_decimal :: "string \<Rightarrow> string option" where
  "search_decimal s =
     (let r = dropWhile (\<lambda>c. \<not> is_digit c) s
      in if r = [] then None
         else (let ip = takeWhile is_digit r; rest = dropWhile is_digit r
               in if rest \<noteq> [] \<and> hd rest = CHR ''.'' \<and> tl rest \<noteq> [] \<and> is_digit (hd (tl rest))
                  then Some (ip @ CHR ''.'' # takeWhile is_digit (tl rest))
                  else Some ip))"

section \<open>Key normalizer\<close>

text \<open>
  \<^verbatim>\<open>
  def _clean_key(self, key):
      if "#" in key:
          return key.split("#")[-1]
      return key
  \<close>
\<close>

definition clean_key :: "string \<Rightarrow> string" where
  "clean_key key = (if CHR ''#'' \<in> set key then last (py_split (CHR ''#'') key) else key)"

section \<open>Cleaning an item\<close>

text \<open>
  Every section parser starts the body of its loop with
  \<^verbatim>\<open>
  cleaned = {}
  for k, v in item.items():
      clean_key = self._clean_key(k)
      if v not in (None, "", []):
          cleaned[clean_key] = v
  \<close>
  An item that is not a dictionary has no \<^verbatim>\<open>items\<close>; a key that is not a string cannot
  be searched for \<^verbatim>\<open>#\<close>.
\<close>

fun clean_pairs :: "pydict \<Rightarrow> pydict \<Rightarrow> pydict" where
  "clean_pairs cleaned [] = cleaned"
| "clean_pairs cleaned ((k, v) # kvs) =
     clean_pairs (if absent v then cleaned else dset cleaned (clean_key k) v) kvs"

text \<open>
  \<^verbatim>\<open>v.items()\<close> for a loop that starts by cleaning the key: the pairs of a dictionary.
  A value without the method raises \<^verbatim>\<open>AttributeError\<close>. A \<open>PMap\<close> is never part of
  a JSON document; read as an item it is the dictionary of its pairs when all its keys
  are strings, and a key that is not a string raises \<^verbatim>\<open>TypeError\<close> in
  \<^verbatim>\<open>_clean_key\<close>.
\<close>

fun text_of :: "pyval \<Rightarrow> string" where
  "text_of (PStr s) = s"
| "text_of _ = []"

fun is_text :: "pyval \<Rightarrow> bool" where
  "is_text (PStr s) = True"
| "is_text _ = False"

fun dict_items :: "pyval \<Rightarrow> exn + pydict" where
  "dict_items (PDict kvs) = Inr kvs"
| "dict_items (PMap m) =
     (if list_all (\<lambda>kv. is_text (fst kv)) m then Inr (map (\<lambda>kv. (text_of (fst kv), snd kv)) m)
      else Inl TypeError)"
| "dict_items _ = Inl AttributeError"

definition clean_item :: "pyval \<Rightarrow> exn + pydict" where
  "clean_item item = bindE (dict_items item) (\<lambda>kvs. Inr (clean_pairs [] kvs))"

text \<open>\<^verbatim>\<open>if k in cleaned: result[k'] = cleaned[k]\<close>\<close>

definition copy_field :: "pydict \<Rightarrow> string \<Rightarrow> string \<Rightarrow> pydict \<Rightarrow> pydict" where
  "copy_field cleaned k k' result =
     (case map_of cleaned k of Some v \<Rightarrow> dset result k' v | None \<Rightarrow> result)"

text \<open>\<^verbatim>\<open>v.get(k, default)\<close> on a value: only a dictionary has the method.\<close>

fun val_get :: "pyval \<Rightarrow> string \<Rightarrow> pyval \<Rightarrow> exn + pyval" where
  "val_get (PDict d) k dflt = Inr (dget d k dflt)"
| "val_get (PMap m) k dflt = Inr (dget m (PStr k) dflt)"
| "val_get _ k dflt = Inl AttributeError"

text \<open>The same on a value already known to be a dictionary.\<close>

fun vget :: "pyval \<Rightarrow> string \<Rightarrow> pyval \<Rightarrow> pyval" where
  "vget (PDict d) k dflt = dget d k dflt"
| "vget (PMap m) k dflt = dget m (PStr k) dflt"
| "vget _ k dflt = dflt"

text \<open>\<^verbatim>\<open>x in v\<close> for a string \<open>x\<close>.\<close>

fun in_val :: "string \<Rightarrow> pyval \<Rightarrow> exn + bool" where
  "in_val x (PStr s) = Inr (str_contains x s)"
| "in_val x (PList xs) = Inr (PStr x \<in> set xs)"
| "in_val x (PDict d) = Inr (dhas d x)"
| "in_val x (PMap m) = Inr (dhas m (PStr x))"
| "in_val x _ = Inl TypeError"

text \<open>The int of an int value.\<close>

fun int_of :: "pyval \<Rightarrow> int" where
  "int_of (PInt i) = i"
| "int_of _ = 0"

section \<open>The environment\<close>

text \<open>
  The parser runs \<^verbatim>\<open>ip\<close>, \<^verbatim>\<open>resolvectl\<close>, \<^verbatim>\<open>uptime\<close>, \<^verbatim>\<open>hostname\<close>, the
  shell and \<^verbatim>\<open>sensors\<close> through \<^verbatim>\<open>subprocess.run\<close>, each inside a \<^verbatim>\<open>try\<close> that
  swallows every exception. What these commands answer is a parameter of the model,
  the same at every call of one parse:
  \<^item> \<open>repr_ext\<close>: the text \<^verbatim>\<open>str\<close> gives for a float or a container;
  \<^item> \<open>ip_addr_devices\<close>, \<open>ip_addr_virtual\<close>: the document \<^verbatim>\<open>ip -j addr\<close> printed at
    the two calls of \<^verbatim>\<open>_add_ip_addresses\<close>, \<open>None\<close> when the command failed or its
    output was not JSON;
  \<^item> \<open>gateway\<close>, \<open>gateway_interface\<close>, \<open>dns_servers\<close>: what
    \<^verbatim>\<open>_get_network_routing_info\<close> found;
  \<^item> \<open>uptime\<close>, \<open>hostname\<close>, \<open>shell\<close>, \<open>install_date\<close>: what
    \<^verbatim>\<open>_collect_extra_system_info\<close> found;
  \<^item> \<open>sensors_cmd\<close>: the output of \<^verbatim>\<open>sensors\<close>.
\<close>

record env =
  repr_ext :: "pyval \<Rightarrow> string"
  ip_addr_devices :: "pyval option"
  ip_addr_virtual :: "pyval option"
  gateway :: string
  gateway_interface :: string
  dns_servers :: "string list"
  uptime :: "string option"
  hostname :: "string option"
  shell :: string
  install_date :: "string option"
  sensors_cmd :: "string option"

definition env_str :: "env \<Rightarrow> pyval \<Rightarrow> string" where
  "env_str e v = py_str (repr_ext e) v"

section \<open>Cross-section synthesizer\<close>

text \<open>
  \<^verbatim>\<open>_extract_pci_devices(parsed_data)\<close>: three loops over the device lists of the GPU,
  audio and network records, sharing \<^verbatim>\<open>devices\<close> and \<^verbatim>\<open>seen_bus_ids\<close>, then a sort.
\<close>

definition pci_entry :: "string \<Rightarrow> string \<Rightarrow> pyval \<Rightarrow> pyval \<Rightarrow> pyval" where
  "pci_entry category class_default device bus_id = PDict
     [(''name'', vget device ''name'' (PStr '''')),
      (''vendor'', vget device ''vendor'' (PStr '''')),
      (''driver'', vget device ''driver'' (PStr '''')),
      (''bus_id'', bus_id),
      (''chip_id'', vget device ''chip_id'' (PStr '''')),
      (''class_id'', vget device ''class_id'' (PStr class_default)),
      (''category'', PStr category),
      (''pcie_gen'', vget device ''pcie_gen'' (PStr '''')),
      (''pcie_speed'', vget device ''pcie_speed'' (PStr '''')),
      (''pcie_lanes'', vget device ''pcie_lanes'' (PStr ''''))]"

text \<open>The loop variables: \<^verbatim>\<open>devices\<close> and \<^verbatim>\<open>seen_bus_ids\<close>.\<close>

type_synonym pci_state = "pyval list \<times> pyval list"

text \<open>
  \<^verbatim>\<open>
  bus_id = device.get("bus_id", "")
  if bus_id and bus_id not in seen_bus_ids:
      seen_bus_ids.add(bus_id)
      devices.append({...})
  \<close>
\<close>

definition pci_add :: "string \<Rightarrow> string \<Rightarrow> pci_state \<Rightarrow> pyval \<Rightarrow> pyval \<Rightarrow> exn + pci_state" where
  "pci_add category class_default st device bus_id =
     bindE (set_member bus_id (snd st)) (\<lambda>seen.
       if \<not> seen
       then Inr (fst st @ [pci_entry category class_default device bus_id], snd st @ [bus_id])
       else Inr st)"

definition pci_gpu_step :: "pci_state \<Rightarrow> pyval \<Rightarrow> exn + pci_state" where
  "pci_gpu_step st device =
     bindE (val_get device ''bus_id'' (PStr '''')) (\<lambda>bus_id.
       if truthy bus_id then pci_add ''Graphics'' ''0300'' st device bus_id else Inr st)"

text \<open>
  \<^verbatim>\<open>
  bus_id = device.get("bus_id", "")
  if bus_id and ":" in bus_id and "-" not in bus_id:
      if bus_id not in seen_bus_ids: ...
  \<close>
\<close>

definition pci_bus_step :: "string \<Rightarrow> string \<Rightarrow> pci_state \<Rightarrow> pyval \<Rightarrow> exn + pci_state" where
  "pci_bus_step category class_default st device =
     bindE (val_get device ''bus_id'' (PStr '''')) (\<lambda>bus_id.
       if truthy bus_id
       then bindE (in_val '':'' bus_id) (\<lambda>colon.
              if colon
              then bindE (in_val ''-'' bus_id) (\<lambda>dash.
                     if \<not> dash then pci_add category class_default st device bus_id
                     else Inr st)
              else Inr st)
       else Inr st)"

text \<open>\<^verbatim>\<open>parsed_data.get(section, {}).get("devices", [])\<close>, ready to be iterated.\<close>

definition section_devices :: "pydict \<Rightarrow> string \<Rightarrow> exn + pyval list" where
  "section_devices parsed_data name =
     bindE (val_get (dget parsed_data name (PDict [])) ''devices'' (PList [])) py_iter"

text \<open>
  \<^verbatim>\<open>devices.sort(key=lambda d: d.get("bus_id", ""))\<close>. A bus id in the list is a string
  or a number; strings compare among themselves and numbers among themselves, and a
  sort of two or more entries that has both raises \<^verbatim>\<open>TypeError\<close>. The sort is stable.
\<close>

fun num_of :: "pyval \<Rightarrow> rat" where
  "num_of v = (case num_val v of Some r \<Rightarrow> r | None \<Rightarrow> 0)"

definition sort_by_bus_id :: "pyval list \<Rightarrow> exn + pyval list" where
  "sort_by_bus_id devices =
     (let keys = map (\<lambda>d. vget d ''bus_id'' (PStr '''')) devices
      in if length devices \<le> 1 then Inr devices
         else if list_all is_text keys
         then Inr (sort_key (\<lambda>d. text_of (vget d ''bus_id'' (PStr ''''))) devices)
         else if list_all (\<lambda>k. num_val k \<noteq> None) keys
         then Inr (sort_key (\<lambda>d. num_of (vget d ''bus_id'' (PStr ''''))) devices)
         else Inl TypeError)"

definition extract_pci_devices :: "pydict \<Rightarrow> exn + pydict" where
  "extract_pci_devices parsed_data =
     bindE (section_devices parsed_data ''gpu'') (\<lambda>gpu_devices.
     bindE (foldE pci_gpu_step ([], []) gpu_devices) (\<lambda>st1.
     bindE (section_devices parsed_data ''audio'') (\<lambda>audio_devices.
     bindE (foldE (pci_bus_step ''Audio'' ''0403'') st1 audio_devices) (\<lambda>st2.
     bindE (section_devices parsed_data ''network'') (\<lambda>network_devices.
     bindE (foldE (pci_bus_step ''Network'' ''0200'') st2 network_devices) (\<lambda>st3.
     bindE (sort_by_bus_id (fst st3)) (\<lambda>devices.
       Inr [(''devices'', PList devices), (''count'', PInt (int (length devices)))])))))))"

section \<open>Section parsers\<close>

text \<open>\<^verbatim>\<open>cleaned.get(k, "")\<close>, the read most fields are filled by.\<close>

definition getd :: "pydict \<Rightarrow> string \<Rightarrow> pyval" where
  "getd cleaned k = dget cleaned k (PStr '''')"

text \<open>A run of \<^verbatim>\<open>if k in cleaned: result[k'] = cleaned[k]\<close>, in the order of the source.\<close>

definition copy_fields :: "pydict \<Rightarrow> (string \<times> string) list \<Rightarrow> pydict \<Rightarrow> pydict" where
  "copy_fields cleaned pairs result = fold (\<lambda>p. copy_field cleaned (fst p) (snd p)) pairs result"

text \<open>\<^verbatim>\<open>for item in items:\<close> with a body that may raise.\<close>

definition for_items :: "('s \<Rightarrow> pyval \<Rightarrow> exn + 's) \<Rightarrow> 's \<Rightarrow> pyval \<Rightarrow> exn + 's" where
  "for_items body s items = bindE (py_iter items) (foldE body s)"

subsection \<open>CPU\<close>

definition cpu_defaults :: pydict where
  "cpu_defaults =
     [(''model'', PStr ''''), (''cores'', PInt 0), (''threads'', PInt 0), (''type'', PStr ''''),
      (''bits'', PInt 0), (''arch'', PStr ''''), (''gen'', PStr ''''), (''built'', PStr ''''),
      (''process'', PStr ''''), (''family'', PStr ''''), (''model_id'', PStr ''''),
      (''stepping'', PStr ''''), (''microcode'', PStr ''''), (''cache_l1'', PStr ''''),
      (''cache_l2'', PStr ''''), (''cache_l3'', PStr ''''), (''speed_current'', PInt 0),
      (''speed_min'', PInt 0), (''speed_max'', PInt 0), (''bogomips'', PInt 0),
      (''scaling_driver'', PStr ''''), (''scaling_governor'', PStr ''''),
      (''core_speeds'', PMap []), (''flags'', PStr ''''), (''vulnerabilities'', PList []),
      (''raw'', PStr '''')]"

text \<open>CPU info and cache info: plain copies.\<close>

definition cpu_basic :: "pydict \<Rightarrow> pydict \<Rightarrow> pydict" where
  "cpu_basic cleaned result = copy_fields cleaned
     [(''model'', ''model''), (''type'', ''type''), (''bits'', ''bits''), (''arch'', ''arch''),
      (''gen'', ''gen''), (''built'', ''built''), (''process'', ''process''),
      (''family'', ''family''), (''model-id'', ''model_id''), (''stepping'', ''stepping''),
      (''microcode'', ''microcode''), (''L1'', ''cache_l1''), (''L2'', ''cache_l2''),
      (''L3'', ''cache_l3'')] result"

text \<open>
  \<^verbatim>\<open>
  info = cleaned.get("Info", "")
  if info:
      if "quad core" in info.lower(): result["cores"] = 4
      elif "octa core" in info.lower(): result["cores"] = 8
      elif "dual core" in info.lower(): result["cores"] = 2
      elif "hexa core" in info.lower(): result["cores"] = 6
      match = re.search(r"(\d+)[- ]core", info.lower())
      if match: result["cores"] = int(match.group(1))
  \<close>
  The cores a text names, if it names any; the regular expression is tried last in
  the source and so overrides the phrase:
\<close>

definition info_cores :: "string \<Rightarrow> int option" where
  "info_cores low =
     (case search_ncore low of
        Some g \<Rightarrow> Some (int (nat_of_digits g))
      | None \<Rightarrow>
          if str_contains ''quad core'' low then Some 4
          else if str_contains ''octa core'' low then Some 8
          else if str_contains ''dual core'' low then Some 2
          else if str_contains ''hexa core'' low then Some 6
          else None)"

definition cpu_info :: "pydict \<Rightarrow> pydict \<Rightarrow> exn + pydict" where
  "cpu_info cleaned result =
     (let info = getd cleaned ''Info''
      in if truthy info
         then bindE (val_lower info) (\<lambda>low.
                Inr (case info_cores low of
                       Some n \<Rightarrow> dset result ''cores'' (PInt n)
                     | None \<Rightarrow> result))
         else Inr result)"

text \<open>
  \<^verbatim>\<open>
  if "cores" in cleaned:
      try: result["cores"] = int(cleaned["cores"])
      except (ValueError, TypeError): pass
  \<close>
  and the same for \<^verbatim>\<open>threads\<close>.
\<close>

definition reported_int :: "pydict \<Rightarrow> string \<Rightarrow> int option" where
  "reported_int cleaned k =
     (case map_of cleaned k of
        None \<Rightarrow> None
      | Some v \<Rightarrow> (case py_int v of Inl e \<Rightarrow> None | Inr i \<Rightarrow> Some i))"

definition set_reported_int :: "pydict \<Rightarrow> string \<Rightarrow> pydict \<Rightarrow> pydict" where
  "set_reported_int cleaned k result =
     (case reported_int cleaned k of Some i \<Rightarrow> dset result k (PInt i) | None \<Rightarrow> result)"

definition cpu_topology :: "pydict \<Rightarrow> pydict \<Rightarrow> pydict" where
  "cpu_topology cleaned result =
     set_reported_int cleaned ''threads'' (set_reported_int cleaned ''cores'' result)"

text \<open>
  \<^verbatim>\<open>
  for k, v in cleaned.items():
      if k.isdigit():
          result["core_speeds"][int(k)] = v
  \<close>
\<close>

fun map_items :: "pyval \<Rightarrow> (pyval \<times> pyval) list" where
  "map_items (PMap m) = m"
| "map_items _ = []"

definition core_speeds_of :: "pydict \<Rightarrow> (pyval \<times> pyval) list" where
  "core_speeds_of result = map_items (dget result ''core_speeds'' (PMap []))"

definition cpu_core_speed :: "string \<times> pyval \<Rightarrow> pydict \<Rightarrow> pydict" where
  "cpu_core_speed kv result =
     (if isdigit (fst kv)
      then dset result ''core_speeds''
             (PMap (hset (core_speeds_of result) (PInt (int (nat_of_digits (fst kv)))) (snd kv)))
      else result)"

definition cpu_core_speeds :: "pydict \<Rightarrow> pydict \<Rightarrow> pydict" where
  "cpu_core_speeds cleaned result = fold cpu_core_speed cleaned result"

text \<open>
  \<^verbatim>\<open>
  if "min/max" in cleaned:
      minmax = str(cleaned["min/max"]).split("/")
      if len(minmax) == 2:
          try:
              result["speed_min"] = int(minmax[0])
              result["speed_max"] = int(minmax[1])
          except ValueError: pass
  \<close>
\<close>

definition cpu_minmax :: "(pyval \<Rightarrow> string) \<Rightarrow> pydict \<Rightarrow> pydict \<Rightarrow> pydict" where
  "cpu_minmax repr cleaned result =
     (case map_of cleaned ''min/max'' of
        None \<Rightarrow> result
      | Some v \<Rightarrow>
          (case py_split (CHR ''/'') (py_str repr v) of
             [lo, hi] \<Rightarrow>
               (case int_of_text lo of
                  Inl e \<Rightarrow> result
                | Inr i \<Rightarrow>
                    (case int_of_text hi of
                       Inl e \<Rightarrow> dset result ''speed_min'' (PInt i)
                     | Inr j \<Rightarrow> dset (dset result ''speed_min'' (PInt i)) ''speed_max'' (PInt j)))
           | _ \<Rightarrow> result))"

definition cpu_speed :: "(pyval \<Rightarrow> string) \<Rightarrow> pydict \<Rightarrow> pydict \<Rightarrow> pydict" where
  "cpu_speed repr cleaned result =
     copy_fields cleaned
       [(''bogomips'', ''bogomips''), (''driver'', ''scaling_driver''),
        (''governor'', ''scaling_governor'')]
       (cpu_minmax repr cleaned (copy_field cleaned ''avg'' ''speed_current'' result))"

text \<open>\<^verbatim>\<open>Flags\<close>, else \<^verbatim>\<open>Flags-basic\<close>.\<close>

definition cpu_flags :: "pydict \<Rightarrow> pydict \<Rightarrow> pydict" where
  "cpu_flags cleaned result =
     (if dhas cleaned ''Flags'' then copy_field cleaned ''Flags'' ''flags'' result
      else copy_field cleaned ''Flags-basic'' ''flags'' result)"

text \<open>An item with a \<^verbatim>\<open>Type\<close> field is a vulnerability entry.\<close>

definition cpu_vulnerability :: "pydict \<Rightarrow> pydict \<Rightarrow> pydict" where
  "cpu_vulnerability cleaned result =
     (case map_of cleaned ''Type'' of
        None \<Rightarrow> result
      | Some t \<Rightarrow>
          dappend result ''vulnerabilities''
            (PDict [(''type'', t), (''status'', getd cleaned ''status''),
                    (''mitigation'', getd cleaned ''mitigation'')]))"

text \<open>The body of the loop of \<^verbatim>\<open>_parse_cpu_section\<close>.\<close>

definition cpu_rest :: "(pyval \<Rightarrow> string) \<Rightarrow> pydict \<Rightarrow> pydict \<Rightarrow> exn + pydict" where
  "cpu_rest repr cleaned result =
     Inr (cpu_vulnerability cleaned
           (cpu_flags cleaned
             (cpu_speed repr cleaned
               (cpu_core_speeds cleaned
                 (cpu_topology cleaned result)))))"

definition cpu_cleaned :: "(pyval \<Rightarrow> string) \<Rightarrow> pydict \<Rightarrow> pydict \<Rightarrow> exn + pydict" where
  "cpu_cleaned repr result cleaned =
     bindE (cpu_info cleaned (cpu_basic cleaned result)) (cpu_rest repr cleaned)"

definition cpu_item :: "(pyval \<Rightarrow> string) \<Rightarrow> pydict \<Rightarrow> pyval \<Rightarrow> exn + pydict" where
  "cpu_item repr result item = bindE (clean_item item) (cpu_cleaned repr result)"

text \<open>
  \<^verbatim>\<open>
  if result["threads"] == 0:
      result["threads"] = len(result["core_speeds"])
  if result["threads"] > 0 and result["cores"] == 0:
      result["cores"] = result["threads"] // 2 or result["threads"]
  \<close>
  Both fields hold ints: they start at \<open>0\<close> and are assigned results of \<^verbatim>\<open>int\<close> only.
\<close>

definition int_field :: "pydict \<Rightarrow> string \<Rightarrow> int" where
  "int_field result k = int_of (dget result k (PInt 0))"

definition cpu_threads_fallback :: "pydict \<Rightarrow> pydict" where
  "cpu_threads_fallback result =
     (if int_field result ''threads'' = 0
      then dset result ''threads'' (PInt (int (length (core_speeds_of result))))
      else result)"

definition cpu_cores_fallback :: "pydict \<Rightarrow> pydict" where
  "cpu_cores_fallback result =
     (let threads = int_field result ''threads''
      in if 0 < threads \<and> int_field result ''cores'' = 0
         then dset result ''cores'' (PInt (if threads div 2 \<noteq> 0 then threads div 2 else threads))
         else result)"

definition parse_cpu_section :: "env \<Rightarrow> pyval \<Rightarrow> exn + pydict" where
  "parse_cpu_section e items =
     bindE (for_items (cpu_item (repr_ext e)) cpu_defaults items) (\<lambda>result.
       Inr (cpu_cores_fallback (cpu_threads_fallback result)))"

subsection \<open>GPU\<close>

definition gpu_defaults :: pydict where
  "gpu_defaults =
     [(''devices'', PList []), (''webcams'', PList []), (''displays'', PList []),
      (''display_info'', PDict []), (''opengl'', PDict []), (''vulkan'', PDict []),
      (''egl'', PDict []), (''monitors'', PList [])]"

definition webcam_keywords :: "string list" where
  "webcam_keywords =
     [''webcam'', ''camera'', ''cam'', ''usb2.0'', ''hd pro'',
      ''facetime'', ''isight'', ''brio'', ''c920'', ''c922'', ''c925'',
      ''streamcam'', ''kiyo'', ''uvc'', ''integrated_webcam'']"

definition gpu_keywords :: "string list" where
  "gpu_keywords =
     [''vga'', ''nvidia'', ''amd'', ''radeon'', ''geforce'', ''intel hd'', ''intel uhd'',
      ''intel iris'', ''matrox'', ''quadro'', ''firepro'', ''arc '', ''display'',
      ''graphics'', ''gpu'', ''rtx'', ''gtx'']"

definition gpu_drivers :: "string list" where
  "gpu_drivers = [''nvidia'', ''amdgpu'', ''radeon'', ''i915'', ''nouveau'']"

text \<open>\<^verbatim>\<open>any(kw in s for kw in keywords)\<close>\<close>

definition any_in :: "string list \<Rightarrow> string \<Rightarrow> bool" where
  "any_in keywords s = list_ex (\<lambda>kw. str_contains kw s) keywords"

definition is_webcam :: "string \<Rightarrow> string \<Rightarrow> bool" where
  "is_webcam device_name driver =
     (any_in webcam_keywords device_name \<or> str_contains ''uvcvideo'' driver)"

definition is_gpu :: "string \<Rightarrow> string \<Rightarrow> bool" where
  "is_gpu device_name driver = (any_in gpu_keywords device_name \<or> any_in gpu_drivers driver)"

definition webcam_entry :: "pydict \<Rightarrow> pyval" where
  "webcam_entry cleaned = PDict
     [(''name'', getd cleaned ''Device''), (''driver'', getd cleaned ''driver''),
      (''type'', dget cleaned ''type'' (PStr ''USB'')), (''bus_id'', getd cleaned ''bus-ID''),
      (''chip_id'', getd cleaned ''chip-ID''), (''serial'', getd cleaned ''serial''),
      (''speed'', getd cleaned ''speed''), (''mode'', getd cleaned ''mode'')]"

definition gpu_entry :: "pydict \<Rightarrow> pyval" where
  "gpu_entry cleaned = PDict
     [(''name'', getd cleaned ''Device''), (''vendor'', getd cleaned ''vendor''),
      (''driver'', getd cleaned ''driver''), (''driver_version'', getd cleaned ''v''),
      (''bus_id'', getd cleaned ''bus-ID''), (''arch'', getd cleaned ''arch''),
      (''chip_id'', getd cleaned ''chip-ID''), (''ports_active'', getd cleaned ''active''),
      (''ports_empty'', getd cleaned ''empty'')]"

text \<open>
  \<^verbatim>\<open>
  device_name = cleaned.get("Device", "").lower()
  driver = cleaned.get("driver", "").lower()
  is_webcam = any(kw in device_name for kw in webcam_keywords) or "uvcvideo" in driver
  is_gpu = any(kw in device_name for kw in gpu_keywords) or \
           any(kw in driver for kw in ["nvidia", "amdgpu", "radeon", "i915", "nouveau"])
  if is_webcam and not is_gpu: result["webcams"].append({...})
  elif not is_webcam or is_gpu: result["devices"].append({...})
  \<close>
\<close>

definition gpu_device :: "pydict \<Rightarrow> pydict \<Rightarrow> exn + pydict" where
  "gpu_device cleaned result =
     bindE (val_lower (getd cleaned ''Device'')) (\<lambda>device_name.
     bindE (val_lower (getd cleaned ''driver'')) (\<lambda>driver.
       if is_webcam device_name driver \<and> \<not> is_gpu device_name driver
       then Inr (dappend result ''webcams'' (webcam_entry cleaned))
       else if \<not> is_webcam device_name driver \<or> is_gpu device_name driver
       then Inr (dappend result ''devices'' (gpu_entry cleaned))
       else Inr result))"

definition gpu_display_info :: "pydict \<Rightarrow> pyval" where
  "gpu_display_info cleaned = PDict
     [(''display'', getd cleaned ''Display''), (''server'', getd cleaned ''server''),
      (''server_version'', getd cleaned ''v''), (''with'', getd cleaned ''with''),
      (''compositor'', getd cleaned ''compositor''), (''driver_loaded'', getd cleaned ''loaded''),
      (''gpu'', getd cleaned ''gpu'')]"

definition gpu_monitor :: "pydict \<Rightarrow> pyval" where
  "gpu_monitor cleaned = PDict
     [(''name'', getd cleaned ''Monitor''), (''model'', getd cleaned ''model''),
      (''resolution'', getd cleaned ''res''), (''size'', getd cleaned ''size''),
      (''diagonal'', getd cleaned ''diag''), (''dpi'', getd cleaned ''dpi''),
      (''gamma'', getd cleaned ''gamma''), (''ratio'', getd cleaned ''ratio'')]"

definition gpu_opengl :: "pydict \<Rightarrow> pyval" where
  "gpu_opengl cleaned = PDict
     [(''version'', getd cleaned ''v''), (''compat_version'', getd cleaned ''compat-v''),
      (''vendor'', getd cleaned ''vendor''), (''glx_version'', getd cleaned ''glx-v''),
      (''direct_render'', getd cleaned ''direct-render''),
      (''renderer'', getd cleaned ''renderer''), (''memory'', getd cleaned ''memory'')]"

definition gpu_vulkan :: "pydict \<Rightarrow> pyval" where
  "gpu_vulkan cleaned = PDict
     [(''version'', getd cleaned ''v''), (''layers'', getd cleaned ''layers''),
      (''devices'',
         PList (if dhas cleaned ''device''
                then [PDict [(''device'', getd cleaned ''device''), (''type'', getd cleaned ''type''),
                             (''name'', getd cleaned ''name''), (''driver'', getd cleaned ''driver'')]]
                else []))]"

definition gpu_egl :: "pydict \<Rightarrow> pyval" where
  "gpu_egl cleaned = PDict
     [(''version'', getd cleaned ''v''), (''hw'', getd cleaned ''hw''),
      (''platforms'', getd cleaned ''platforms'')]"

text \<open>The body of the loop of \<^verbatim>\<open>_parse_gpu_section\<close>: one \<^verbatim>\<open>if\<close>/\<^verbatim>\<open>elif\<close> chain.\<close>

definition gpu_cleaned :: "pydict \<Rightarrow> pydict \<Rightarrow> exn + pydict" where
  "gpu_cleaned result cleaned =
     (if dhas cleaned ''Device'' then gpu_device cleaned result
     else if dhas cleaned ''Display'' \<or> dhas cleaned ''server''
     then Inr (dset result ''display_info'' (gpu_display_info cleaned))
     else if dhas cleaned ''Monitor''
     then Inr (dappend result ''monitors'' (gpu_monitor cleaned))
     else if dhas cleaned ''API'' \<and> map_of cleaned ''API'' = Some (PStr ''OpenGL'')
     then Inr (dset result ''opengl'' (gpu_opengl cleaned))
     else if dhas cleaned ''API'' \<and> map_of cleaned ''API'' = Some (PStr ''Vulkan'')
     then Inr (dset result ''vulkan'' (gpu_vulkan cleaned))
     else if dhas cleaned ''API'' \<and> map_of cleaned ''API'' = Some (PStr ''EGL'')
     then Inr (dset result ''egl'' (gpu_egl cleaned))
     else Inr result)"

definition gpu_item :: "pydict \<Rightarrow> pyval \<Rightarrow> exn + pydict" where
  "gpu_item result item = bindE (clean_item item) (gpu_cleaned result)"

definition parse_gpu_section :: "pyval \<Rightarrow> exn + pydict" where
  "parse_gpu_section items = for_items gpu_item gpu_defaults items"

subsection \<open>Memory\<close>

definition memory_defaults :: pydict where
  "memory_defaults =
     [(''total'', PStr ''''), (''used'', PStr ''''), (''available'', PStr ''''),
      (''used_percent'', PInt 0), (''capacity'', PStr ''''), (''slots'', PStr ''''),
      (''ec'', PStr ''''), (''note'', PStr ''''), (''max_module_size'', PStr ''''),
      (''modules'', PList [])]"

text \<open>\<^verbatim>\<open>if k in cleaned: result[k'] = str(cleaned[k])\<close>\<close>

definition copy_str :: "(pyval \<Rightarrow> string) \<Rightarrow> pydict \<Rightarrow> string \<Rightarrow> string \<Rightarrow> pydict \<Rightarrow> pydict" where
  "copy_str repr cleaned k k' result =
     (case map_of cleaned k of Some v \<Rightarrow> dset result k' (PStr (py_str repr v)) | None \<Rightarrow> result)"

text \<open>\<^verbatim>\<open>if k in cleaned and not result[k]: result[k] = str(cleaned[k])\<close>\<close>

definition copy_str_once :: "(pyval \<Rightarrow> string) \<Rightarrow> pydict \<Rightarrow> string \<Rightarrow> pydict \<Rightarrow> pydict" where
  "copy_str_once repr cleaned k result =
     (if dhas cleaned k \<and> \<not> truthy (getd result k) then copy_str repr cleaned k k result
      else result)"

text \<open>
  \<^verbatim>\<open>
  if "total" in cleaned and "Device" not in cleaned:
      total_str = str(cleaned.get("total", ""))
      if "GiB" in total_str or "GB" in total_str:
          if not result["total"]:
              result["total"] = total_str
  \<close>
\<close>

definition is_ram_summary :: "pydict \<Rightarrow> bool" where
  "is_ram_summary cleaned = (dhas cleaned ''total'' \<and> \<not> dhas cleaned ''Device'')"

definition total_text :: "(pyval \<Rightarrow> string) \<Rightarrow> pydict \<Rightarrow> string" where
  "total_text repr cleaned = py_str repr (getd cleaned ''total'')"

definition names_gib :: "string \<Rightarrow> bool" where
  "names_gib total_str = (str_contains ''GiB'' total_str \<or> str_contains ''GB'' total_str)"

definition memory_total :: "(pyval \<Rightarrow> string) \<Rightarrow> pydict \<Rightarrow> pydict \<Rightarrow> pydict" where
  "memory_total repr cleaned result =
     (if is_ram_summary cleaned
      then (if names_gib (total_text repr cleaned)
            then (if \<not> truthy (getd result ''total'')
                  then dset result ''total'' (PStr (total_text repr cleaned))
                  else result)
            else result)
      else result)"

text \<open>
  \<^verbatim>\<open>
  if "Device" in cleaned and "size" in cleaned:
      size = cleaned.get("size", "")
      if size and "No Module" not in str(size):
          result["modules"].append({...})
  \<close>
\<close>

definition is_module :: "(pyval \<Rightarrow> string) \<Rightarrow> pydict \<Rightarrow> bool" where
  "is_module repr cleaned =
     (dhas cleaned ''Device'' \<and> dhas cleaned ''size''
      \<and> truthy (getd cleaned ''size'')
      \<and> \<not> str_contains ''No Module'' (py_str repr (getd cleaned ''size'')))"

definition module_entry :: "(pyval \<Rightarrow> string) \<Rightarrow> pydict \<Rightarrow> pyval" where
  "module_entry repr cleaned = PDict
     [(''size'', PStr (py_str repr (getd cleaned ''size''))),
      (''speed'', PStr (py_str repr (dget cleaned ''spec'' (getd cleaned ''speed'')))),
      (''actual_speed'', PStr (py_str repr (dget cleaned ''actual'' (getd cleaned ''configured'')))),
      (''type'', PStr (py_str repr (getd cleaned ''type''))),
      (''slot'', PStr (py_str repr (getd cleaned ''Device''))),
      (''manufacturer'', PStr (py_str repr (getd cleaned ''manufacturer''))),
      (''volts'', PStr (py_str repr (getd cleaned ''volts''))),
      (''part_no'', PStr (py_str repr (getd cleaned ''part-no''))),
      (''serial'', PStr (py_str repr (getd cleaned ''serial'')))]"

definition memory_module :: "(pyval \<Rightarrow> string) \<Rightarrow> pydict \<Rightarrow> pydict \<Rightarrow> pydict" where
  "memory_module repr cleaned result =
     (if is_module repr cleaned then dappend result ''modules'' (module_entry repr cleaned)
      else result)"

definition memory_extra :: "(pyval \<Rightarrow> string) \<Rightarrow> pydict \<Rightarrow> pydict \<Rightarrow> pydict" where
  "memory_extra repr cleaned result =
     copy_str repr cleaned ''modules'' ''modules_count''
       (copy_str repr cleaned ''max-module-size'' ''max_module_size''
         (copy_str repr cleaned ''note'' ''note''
           (copy_str repr cleaned ''EC'' ''ec''
             (copy_str repr cleaned ''slots'' ''slots''
               (copy_str repr cleaned ''capacity'' ''capacity'' result)))))"

definition memory_fields :: "(pyval \<Rightarrow> string) \<Rightarrow> pydict \<Rightarrow> pydict \<Rightarrow> pydict" where
  "memory_fields repr cleaned result =
     memory_module repr cleaned
       (memory_extra repr cleaned
         (copy_str_once repr cleaned ''available''
           (copy_str_once repr cleaned ''used''
             (memory_total repr cleaned result))))"

definition memory_cleaned :: "(pyval \<Rightarrow> string) \<Rightarrow> pydict \<Rightarrow> pydict \<Rightarrow> exn + pydict" where
  "memory_cleaned repr result cleaned =
     Inr (memory_fields repr cleaned result)"

definition memory_item :: "(pyval \<Rightarrow> string) \<Rightarrow> pydict \<Rightarrow> pyval \<Rightarrow> exn + pydict" where
  "memory_item repr result item = bindE (clean_item item) (memory_cleaned repr result)"

text \<open>
  \<^verbatim>\<open>
  if result["total"] and result["used"]:
      try:
          total_match = re.search(r"([\d.]+)", result["total"])
          used_match = re.search(r"([\d.]+)", result["used"])
          if total_match and used_match:
              total_val = float(total_match.group(1))
              used_val = float(used_match.group(1))
              if total_val > 0:
                  result["used_percent"] = round((used_val / total_val) * 100, 1)
      except (ValueError, ZeroDivisionError): pass
  \<close>
\<close>

definition memory_used_percent :: "pydict \<Rightarrow> pydict" where
  "memory_used_percent result =
     (if truthy (getd result ''total'') \<and> truthy (getd result ''used'')
      then (case search_num (text_of (getd result ''total'')) of
              None \<Rightarrow> result
            | Some total_match \<Rightarrow>
                (case search_num (text_of (getd result ''used'')) of
                   None \<Rightarrow> result
                 | Some used_match \<Rightarrow>
                     (case float_of_text total_match of
                        Inl e \<Rightarrow> result
                      | Inr total_val \<Rightarrow>
                          (case float_of_text used_match of
                             Inl e \<Rightarrow> result
                           | Inr used_val \<Rightarrow>
                               if 0 < total_val
                               then dset result ''used_percent''
                                      (PFloat (round1 ((used_val / total_val) * 100)))
                               else result))))
      else result)"

definition parse_memory_section :: "env \<Rightarrow> pyval \<Rightarrow> exn + pydict" where
  "parse_memory_section e items =
     bindE (for_items (memory_item (repr_ext e)) memory_defaults items) (\<lambda>result.
       Inr (memory_used_percent result))"

subsection \<open>Audio\<close>

text \<open>
  \<^verbatim>\<open>device_type = cleaned.get("type", "").upper()\<close>; a USB device gets
  \<^verbatim>\<open>usb_speed\<close> and \<^verbatim>\<open>usb_rev\<close>, any other \<^verbatim>\<open>pcie_gen\<close>, \<^verbatim>\<open>pcie_speed\<close> and
  \<^verbatim>\<open>pcie_lanes\<close>.
\<close>

definition bus_fields :: "string \<Rightarrow> pydict \<Rightarrow> pydict" where
  "bus_fields device_type cleaned =
     (if device_type = ''USB''
      then [(''usb_speed'', getd cleaned ''speed''), (''usb_rev'', getd cleaned ''rev'')]
      else [(''pcie_gen'', getd cleaned ''gen''), (''pcie_speed'', getd cleaned ''speed''),
            (''pcie_lanes'', getd cleaned ''lanes'')])"

definition type_or_pci :: "string \<Rightarrow> pyval" where
  "type_or_pci device_type = PStr (if device_type \<noteq> [] then device_type else ''PCI'')"

definition audio_device :: "string \<Rightarrow> pydict \<Rightarrow> pydict" where
  "audio_device device_type cleaned =
     [(''name'', getd cleaned ''Device''), (''vendor'', getd cleaned ''vendor''),
      (''driver'', getd cleaned ''driver''), (''bus_id'', getd cleaned ''bus-ID''),
      (''chip_id'', getd cleaned ''chip-ID''), (''class_id'', getd cleaned ''class-ID''),
      (''type'', type_or_pci device_type), (''serial'', getd cleaned ''serial'')]
     @ bus_fields device_type cleaned"

definition audio_cleaned :: "pydict \<Rightarrow> pydict \<Rightarrow> exn + pydict" where
  "audio_cleaned result cleaned =
     (if dhas cleaned ''Device''
       then bindE (val_upper (getd cleaned ''type'')) (\<lambda>device_type.
              Inr (dappend result ''devices'' (PDict (audio_device device_type cleaned))))
       else Inr result)"

definition audio_item :: "pydict \<Rightarrow> pyval \<Rightarrow> exn + pydict" where
  "audio_item result item = bindE (clean_item item) (audio_cleaned result)"

definition parse_audio_section :: "pyval \<Rightarrow> exn + pydict" where
  "parse_audio_section items = for_items audio_item [(''devices'', PList [])] items"

subsection \<open>Network\<close>

definition network_device :: "string \<Rightarrow> pydict \<Rightarrow> pydict" where
  "network_device device_type cleaned =
     [(''name'', getd cleaned ''Device''), (''vendor'', getd cleaned ''vendor''),
      (''driver'', getd cleaned ''driver''), (''bus_id'', getd cleaned ''bus-ID''),
      (''chip_id'', getd cleaned ''chip-ID''), (''class_id'', getd cleaned ''class-ID''),
      (''port'', getd cleaned ''port''), (''mac'', getd cleaned ''mac''),
      (''type'', type_or_pci device_type)]
     @ bus_fields device_type cleaned"

definition interface_info :: "pyval \<Rightarrow> pydict \<Rightarrow> pydict" where
  "interface_info interface_name cleaned =
     [(''IF'', interface_name), (''state'', getd cleaned ''state''), (''mac'', getd cleaned ''mac''),
      (''speed'', getd cleaned ''speed''), (''duplex'', getd cleaned ''duplex''),
      (''ip'', getd cleaned ''ip''), (''ipv6'', getd cleaned ''ipv6'')]"

definition virtual_keywords :: "string list" where
  "virtual_keywords = [''veth'', ''docker'', ''virbr'', ''br-'', ''vbox'', ''vmnet'']"

text \<open>
  The loop variables are \<^verbatim>\<open>result\<close> and \<^verbatim>\<open>current_device\<close>, which is \<^verbatim>\<open>None\<close> or a
  dictionary with keys, so that \<^verbatim>\<open>if current_device:\<close> asks whether one is open.
\<close>

type_synonym net_state = "pydict \<times> pydict option"

definition flush_device :: "net_state \<Rightarrow> pydict" where
  "flush_device st =
     (case snd st of Some dev \<Rightarrow> dappend (fst st) ''devices'' (PDict dev) | None \<Rightarrow> fst st)"

definition network_interface :: "net_state \<Rightarrow> pydict \<Rightarrow> exn + net_state" where
  "network_interface st cleaned =
     (let interface_name = dget cleaned ''IF'' (getd cleaned ''IF-ID'');
          info = interface_info interface_name cleaned
      in bindE (val_lower interface_name) (\<lambda>low.
           case snd st of
             Some dev \<Rightarrow> Inr (dappend (fst st) ''devices'' (PDict (dupdate dev info)), None)
           | None \<Rightarrow>
               if any_in virtual_keywords low
               then Inr (dappend (fst st) ''virtual_devices''
                           (PDict (dset info ''name'' interface_name)), None)
               else Inr (dappend (fst st) ''devices''
                           (PDict (dset info ''name'' interface_name)), None)))"

definition network_cleaned :: "net_state \<Rightarrow> pydict \<Rightarrow> exn + net_state" where
  "network_cleaned st cleaned =
     (if dhas cleaned ''Device''
       then bindE (val_upper (getd cleaned ''type'')) (\<lambda>device_type.
              Inr (flush_device st, Some (network_device device_type cleaned)))
       else if dhas cleaned ''IF'' \<or> dhas cleaned ''IF-ID''
       then network_interface st cleaned
       else Inr st)"

definition network_item :: "net_state \<Rightarrow> pyval \<Rightarrow> exn + net_state" where
  "network_item st item = bindE (clean_item item) (network_cleaned st)"

text \<open>
  \<^verbatim>\<open>_add_ip_addresses(devices)\<close>. The whole body is inside \<^verbatim>\<open>try ... except Exception\<close>;
  \<open>data\<close> is the parsed output of \<^verbatim>\<open>ip -j addr\<close>. First the map from interface names
  to addresses is built; an exception there leaves the devices as they are.
\<close>

type_synonym ip_map = "(pyval \<times> pyval \<times> pyval) list"

definition addr_step :: "pyval \<times> pyval \<Rightarrow> pyval \<Rightarrow> exn + pyval \<times> pyval" where
  "addr_step ips addr =
     bindE (val_get addr ''family'' PNone) (\<lambda>family.
       if family = PStr ''inet'' \<and> \<not> truthy (fst ips)
       then Inr (vget addr ''local'' (PStr ''''), snd ips)
       else if family = PStr ''inet6'' \<and> \<not> truthy (snd ips)
       then Inr (fst ips, vget addr ''local'' (PStr ''''))
       else Inr ips)"

definition iface_step :: "ip_map \<Rightarrow> pyval \<Rightarrow> exn + ip_map" where
  "iface_step m iface =
     bindE (val_get iface ''ifname'' (PStr '''')) (\<lambda>ifname.
     bindE (py_iter (vget iface ''addr_info'' (PList []))) (\<lambda>addrs.
     bindE (foldE addr_step (PStr '''', PStr '''') addrs) (\<lambda>ips.
       if truthy (fst ips) \<or> truthy (snd ips)
       then (if hashable ifname then Inr (hset m ifname ips) else Inl TypeError)
       else Inr m)))"

definition build_ip_map :: "pyval \<Rightarrow> exn + ip_map" where
  "build_ip_map data = bindE (py_iter data) (foldE iface_step [])"

text \<open>
  Then every device whose interface has an entry gets the addresses it lacks. The
  devices are the dictionaries the network parser built. An interface name that
  cannot be hashed raises inside the \<^verbatim>\<open>try\<close>: the loop stops there and the devices
  already visited keep their addresses.
\<close>

definition set_if_falsy :: "string \<Rightarrow> pyval \<Rightarrow> pydict \<Rightarrow> pydict" where
  "set_if_falsy k v device = (if \<not> truthy (dget device k PNone) then dset device k v else device)"

fun device_dict :: "pyval \<Rightarrow> pydict" where
  "device_dict (PDict d) = d"
| "device_dict _ = []"

fun add_ips :: "ip_map \<Rightarrow> pyval list \<Rightarrow> pyval list" where
  "add_ips m [] = []"
| "add_ips m (device # devices) =
     (let ifname = vget device ''IF'' (vget device ''name'' (PStr ''''))
      in if truthy ifname
         then (if hashable ifname
               then (case hget m ifname of
                       Some ips \<Rightarrow>
                         PDict (set_if_falsy ''ipv6'' (snd ips)
                                 (set_if_falsy ''ip'' (fst ips) (device_dict device)))
                     | None \<Rightarrow> device) # add_ips m devices
               else device # devices)
         else device # add_ips m devices)"

definition add_ip_addresses :: "pyval option \<Rightarrow> pyval list \<Rightarrow> pyval list" where
  "add_ip_addresses ip_addr devices =
     (case ip_addr of
        None \<Rightarrow> devices
      | Some data \<Rightarrow>
          (case build_ip_map data of Inl e \<Rightarrow> devices | Inr m \<Rightarrow> add_ips m devices))"

text \<open>\<^verbatim>\<open>_get_network_routing_info()\<close> returns these three keys whatever happens.\<close>

definition get_network_routing_info :: "env \<Rightarrow> pydict" where
  "get_network_routing_info e =
     [(''gateway'', PStr (gateway e)), (''dns_servers'', PList (map PStr (dns_servers e))),
      (''gateway_interface'', PStr (gateway_interface e))]"

definition enrich_devices :: "pyval option \<Rightarrow> string \<Rightarrow> pydict \<Rightarrow> pydict" where
  "enrich_devices ip_addr k result =
     dset result k (PList (add_ip_addresses ip_addr (list_items (dget result k (PList [])))))"

definition parse_network_section :: "env \<Rightarrow> pyval \<Rightarrow> exn + pydict" where
  "parse_network_section e items =
     bindE (for_items network_item ([(''devices'', PList []), (''virtual_devices'', PList [])], None)
              items) (\<lambda>st.
       Inr (dupdate
              (enrich_devices (ip_addr_virtual e) ''virtual_devices''
                (enrich_devices (ip_addr_devices e) ''devices'' (flush_device st)))
              (get_network_routing_info e)))"

subsection \<open>Disk\<close>

text \<open>
  \<^verbatim>\<open>
  used_percent = 0
  match = re.search(r"\(([\d.]+)%\)", used_str)
  if match:
      used_percent = float(match.group(1))
  \<close>
  The conversion is not inside a \<^verbatim>\<open>try\<close>.
\<close>

definition percent_of :: "string \<Rightarrow> exn + pyval option" where
  "percent_of used_str =
     (case search_percent used_str of
        None \<Rightarrow> Inr None
      | Some g \<Rightarrow> bindE (float_of_text g) (\<lambda>r. Inr (Some (PFloat r))))"

definition disk_summary :: "(pyval \<Rightarrow> string) \<Rightarrow> pydict \<Rightarrow> pydict \<Rightarrow> exn + pydict" where
  "disk_summary repr cleaned result =
     (let used_str = py_str repr (getd cleaned ''used'');
          result = dset (dset result ''total_size'' (PStr (py_str repr (getd cleaned ''total''))))
                     ''used'' (PStr used_str)
      in bindE (percent_of used_str) (\<lambda>p.
           Inr (case p of Some v \<Rightarrow> dset result ''used_percent'' v | None \<Rightarrow> result)))"

text \<open>
  \<^verbatim>\<open>
  drive_type = "HDD"
  tech = str(cleaned.get("tech", "")).upper()
  if "SSD" in tech: drive_type = "SSD"
  elif "NVME" in tech: drive_type = "NVMe"
  if "nvme" in str(cleaned.get("ID", "")).lower(): drive_type = "NVMe"
  \<close>
\<close>

definition drive_type :: "(pyval \<Rightarrow> string) \<Rightarrow> pydict \<Rightarrow> string" where
  "drive_type repr cleaned =
     (let tech = py_upper (py_str repr (getd cleaned ''tech''));
          by_tech = (if str_contains ''SSD'' tech then ''SSD''
                     else if str_contains ''NVME'' tech then ''NVMe''
                     else ''HDD'')
      in if str_contains ''nvme'' (py_lower (py_str repr (getd cleaned ''ID''))) then ''NVMe''
         else by_tech)"

definition drive_entry :: "(pyval \<Rightarrow> string) \<Rightarrow> pydict \<Rightarrow> pyval" where
  "drive_entry repr cleaned = PDict
     [(''id'', getd cleaned ''ID''), (''model'', getd cleaned ''model''),
      (''size'', PStr (py_str repr (getd cleaned ''size''))), (''vendor'', getd cleaned ''vendor''),
      (''type'', PStr (drive_type repr cleaned)), (''serial'', getd cleaned ''serial''),
      (''temp'', getd cleaned ''temp''), (''speed'', getd cleaned ''speed''),
      (''lanes'', getd cleaned ''lanes''), (''firmware'', getd cleaned ''fw-rev''),
      (''scheme'', getd cleaned ''scheme''), (''block_physical'', getd cleaned ''physical''),
      (''block_logical'', getd cleaned ''logical''), (''maj_min'', getd cleaned ''maj-min'')]"

text \<open>The body of the first loop: the summary item (then \<^verbatim>\<open>continue\<close>), else a drive.\<close>

definition disk_cleaned :: "(pyval \<Rightarrow> string) \<Rightarrow> pydict \<Rightarrow> pydict \<Rightarrow> exn + pydict" where
  "disk_cleaned repr result cleaned =
     (if dhas cleaned ''Local Storage'' \<or> dhas cleaned ''total''
       then disk_summary repr cleaned result
       else if dhas cleaned ''model'' \<and> dhas cleaned ''size''
       then Inr (dappend result ''drives'' (drive_entry repr cleaned))
       else Inr result)"

definition disk_item :: "(pyval \<Rightarrow> string) \<Rightarrow> pydict \<Rightarrow> pyval \<Rightarrow> exn + pydict" where
  "disk_item repr result item = bindE (clean_item item) (disk_cleaned repr result)"

definition partition_cleaned :: "(pyval \<Rightarrow> string) \<Rightarrow> pydict \<Rightarrow> pydict \<Rightarrow> exn + pydict" where
  "partition_cleaned repr result cleaned =
     (if dhas cleaned ''ID''
       then (let used_str = py_str repr (getd cleaned ''used'')
             in bindE (percent_of used_str) (\<lambda>p.
                  Inr (dappend result ''partitions'' (PDict
                    [(''id'', getd cleaned ''ID''),
                     (''raw_size'', PStr (py_str repr (getd cleaned ''raw-size''))),
                     (''size'', PStr (py_str repr (getd cleaned ''size''))),
                     (''used'', PStr used_str),
                     (''used_percent'', (case p of Some v \<Rightarrow> v | None \<Rightarrow> PInt 0)),
                     (''fs'', getd cleaned ''fs''), (''dev'', getd cleaned ''dev''),
                     (''label'', getd cleaned ''label''),
                     (''mount'', dget cleaned ''mount'' (getd cleaned ''mountpoint''))]))))
       else Inr result)"

definition partition_item :: "(pyval \<Rightarrow> string) \<Rightarrow> pydict \<Rightarrow> pyval \<Rightarrow> exn + pydict" where
  "partition_item repr result item = bindE (clean_item item) (partition_cleaned repr result)"

definition swap_cleaned :: "(pyval \<Rightarrow> string) \<Rightarrow> pydict \<Rightarrow> pydict \<Rightarrow> exn + pydict" where
  "swap_cleaned repr result cleaned =
     (if dhas cleaned ''Kernel'' \<or> dhas cleaned ''swappiness''
       then Inr (dset result ''swap_kernel'' (PDict
              [(''swappiness'', getd cleaned ''swappiness''),
               (''cache_pressure'', getd cleaned ''cache-pressure''),
               (''zswap'', getd cleaned ''zswap''), (''compressor'', getd cleaned ''compressor'')]))
       else if dhas cleaned ''ID'' \<or> dhas cleaned ''type''
       then (let used_str = py_str repr (getd cleaned ''used'')
             in bindE (percent_of used_str) (\<lambda>p.
                  Inr (dappend result ''swap'' (PDict
                    [(''id'', getd cleaned ''ID''), (''type'', getd cleaned ''type''),
                     (''size'', PStr (py_str repr (getd cleaned ''size''))),
                     (''used'', PStr used_str),
                     (''used_percent'', (case p of Some v \<Rightarrow> v | None \<Rightarrow> PInt 0)),
                     (''priority'', getd cleaned ''priority''), (''comp'', getd cleaned ''comp''),
                     (''dev'', dget cleaned ''dev'' (getd cleaned ''file''))]))))
       else Inr result)"

definition swap_item :: "(pyval \<Rightarrow> string) \<Rightarrow> pydict \<Rightarrow> pyval \<Rightarrow> exn + pydict" where
  "swap_item repr result item = bindE (clean_item item) (swap_cleaned repr result)"

text \<open>
  The second loop reads the whole document again:
  \<^verbatim>\<open>
  for section in full_data:
      for key, value in section.items():
          section_name = self._clean_key(key)
          if "Partition" in section_name and isinstance(value, list): ...
          elif "Swap" in section_name and isinstance(value, list): ...
  \<close>
\<close>

fun is_list :: "pyval \<Rightarrow> bool" where
  "is_list (PList xs) = True"
| "is_list _ = False"

definition disk_scan_pair :: "(pyval \<Rightarrow> string) \<Rightarrow> pydict \<Rightarrow> string \<times> pyval \<Rightarrow> exn + pydict" where
  "disk_scan_pair repr result kv =
     (let section_name = clean_key (fst kv)
      in if str_contains ''Partition'' section_name \<and> is_list (snd kv)
         then foldE (partition_item repr) result (list_items (snd kv))
         else if str_contains ''Swap'' section_name \<and> is_list (snd kv)
         then foldE (swap_item repr) result (list_items (snd kv))
         else Inr result)"

definition disk_scan_section :: "(pyval \<Rightarrow> string) \<Rightarrow> pydict \<Rightarrow> pyval \<Rightarrow> exn + pydict" where
  "disk_scan_section repr result section =
     bindE (dict_items section) (foldE (disk_scan_pair repr) result)"

definition disk_defaults :: pydict where
  "disk_defaults =
     [(''drives'', PList []), (''partitions'', PList []), (''swap'', PList []),
      (''total_size'', PStr ''''), (''used'', PStr ''''), (''used_percent'', PInt 0)]"

definition parse_disk_section :: "env \<Rightarrow> pyval \<Rightarrow> pyval list \<Rightarrow> exn + pydict" where
  "parse_disk_section e items full_data =
     bindE (for_items (disk_item (repr_ext e)) disk_defaults items) (\<lambda>result.
       foldE (disk_scan_section (repr_ext e)) result full_data)"

subsection \<open>System\<close>

definition system_defaults :: pydict where
  "system_defaults =
     [(''host'', PStr ''''), (''kernel'', PStr ''''), (''kernel_arch'', PStr ''''),
      (''kernel_bits'', PStr ''''), (''compiler'', PStr ''''), (''compiler_version'', PStr ''''),
      (''desktop'', PStr ''''), (''desktop_version'', PStr ''''), (''wm'', PStr ''''),
      (''dm'', PStr ''''), (''tk'', PStr ''''), (''distro'', PStr ''''), (''init'', PStr '''')]"

text \<open>
  \<^verbatim>\<open>
  if "Desktop" in cleaned:
      result["desktop"] = cleaned["Desktop"]
      if "v" in cleaned:
          result["desktop_version"] = cleaned["v"]
  \<close>
\<close>

definition system_desktop :: "pydict \<Rightarrow> pydict \<Rightarrow> pydict" where
  "system_desktop cleaned result =
     (if dhas cleaned ''Desktop''
      then copy_field cleaned ''v'' ''desktop_version''
             (copy_field cleaned ''Desktop'' ''desktop'' result)
      else result)"

definition system_fields :: "(pyval \<Rightarrow> string) \<Rightarrow> pydict \<Rightarrow> pydict \<Rightarrow> pydict" where
  "system_fields repr cleaned result =
     copy_fields cleaned
       [(''wm'', ''wm''), (''dm'', ''dm''), (''tk'', ''tk''), (''Distro'', ''distro''),
        (''Init'', ''init'')]
       (system_desktop cleaned
          (copy_field cleaned ''compiler'' ''compiler''
            (copy_str repr cleaned ''bits'' ''kernel_bits''
              (copy_fields cleaned
                 [(''Host'', ''host''), (''Kernel'', ''kernel''), (''arch'', ''kernel_arch'')]
                 result))))"

definition system_cleaned :: "(pyval \<Rightarrow> string) \<Rightarrow> pydict \<Rightarrow> pydict \<Rightarrow> exn + pydict" where
  "system_cleaned repr result cleaned =
     Inr (system_fields repr cleaned result)"

definition system_item :: "(pyval \<Rightarrow> string) \<Rightarrow> pydict \<Rightarrow> pyval \<Rightarrow> exn + pydict" where
  "system_item repr result item = bindE (clean_item item) (system_cleaned repr result)"

text \<open>
  \<^verbatim>\<open>_collect_extra_system_info()\<close>: \<^verbatim>\<open>shell\<close> is always set, the other keys only when
  their command answered.
\<close>

definition opt_entry :: "string \<Rightarrow> string option \<Rightarrow> pydict" where
  "opt_entry k v = (case v of Some s \<Rightarrow> [(k, PStr s)] | None \<Rightarrow> [])"

definition collect_extra_system_info :: "env \<Rightarrow> pydict" where
  "collect_extra_system_info e =
     opt_entry ''uptime'' (uptime e) @ opt_entry ''hostname'' (hostname e)
     @ [(''shell'', PStr (shell e))] @ opt_entry ''install_date'' (install_date e)"

definition parse_system_section :: "env \<Rightarrow> pyval \<Rightarrow> exn + pydict" where
  "parse_system_section e items =
     bindE (for_items (system_item (repr_ext e)) system_defaults items) (\<lambda>result.
       Inr (dupdate result (collect_extra_system_info e)))"

subsection \<open>Machine\<close>

definition machine_defaults :: pydict where
  "machine_defaults =
     [(''type'', PStr ''''), (''system'', PStr ''''), (''product'', PStr ''''),
      (''mobo'', PStr ''''), (''mobo_model'', PStr ''''), (''mobo_version'', PStr ''''),
      (''firmware_type'', PStr ''''), (''firmware_vendor'', PStr ''''),
      (''firmware_version'', PStr ''''), (''firmware_date'', PStr '''')]"

text \<open>
  Within one item the keys are visited in sorted order, and three flags remember what
  was seen: \<^verbatim>\<open>found_mobo\<close>, \<^verbatim>\<open>found_firmware\<close>, \<^verbatim>\<open>mobo_v_set\<close>.
\<close>

record machine_state =
  m_result :: pydict
  found_mobo :: bool
  found_firmware :: bool
  mobo_v_set :: bool

definition machine_key :: "pydict \<Rightarrow> machine_state \<Rightarrow> string \<Rightarrow> machine_state" where
  "machine_key item st key =
     (let v = dget item key PNone; k = clean_key key
      in if absent v then st
         else if k = ''Type'' then st\<lparr>m_result := dset (m_result st) ''type'' v\<rparr>
         else if k = ''System'' then st\<lparr>m_result := dset (m_result st) ''system'' v\<rparr>
         else if k = ''product'' then st\<lparr>m_result := dset (m_result st) ''product'' v\<rparr>
         else if k = ''Mobo''
         then st\<lparr>m_result := dset (m_result st) ''mobo'' v, found_mobo := True\<rparr>
         else if k = ''model'' \<and> found_mobo st
         then st\<lparr>m_result := dset (m_result st) ''mobo_model'' v\<rparr>
         else if k = ''v'' \<and> found_mobo st \<and> \<not> found_firmware st \<and> \<not> mobo_v_set st
         then st\<lparr>m_result := dset (m_result st) ''mobo_version'' v, mobo_v_set := True\<rparr>
         else if k = ''Firmware''
         then st\<lparr>m_result := dset (m_result st) ''firmware_type'' v, found_firmware := True\<rparr>
         else if k = ''vendor'' \<and> found_firmware st
         then st\<lparr>m_result := dset (m_result st) ''firmware_vendor'' v\<rparr>
         else if k = ''v'' \<and> found_firmware st
         then st\<lparr>m_result := dset (m_result st) ''firmware_version'' v\<rparr>
         else if k = ''date'' then st\<lparr>m_result := dset (m_result st) ''firmware_date'' v\<rparr>
         else st)"

text \<open>\<^verbatim>\<open>sorted(item.keys())\<close> needs a dictionary.\<close>

definition machine_item :: "pydict \<Rightarrow> pyval \<Rightarrow> exn + pydict" where
  "machine_item result item =
     bindE (dict_items item) (\<lambda>kvs.
       Inr (m_result (fold (\<lambda>key st. machine_key kvs st key) (sort (map fst kvs))
              \<lparr>m_result = result, found_mobo = False, found_firmware = False,
               mobo_v_set = False\<rparr>)))"

definition parse_machine_section :: "pyval \<Rightarrow> exn + pydict" where
  "parse_machine_section items = for_items machine_item machine_defaults items"

subsection \<open>Battery\<close>

text \<open>
  \<^verbatim>\<open>
  charge = 0
  if "charge" in cleaned:
      charge_str = str(cleaned["charge"])
      match = re.search(r"(\d+(?:\.\d+)?)", charge_str)
      if match:
          charge = float(match.group(1))
  \<close>
\<close>

definition battery_charge :: "(pyval \<Rightarrow> string) \<Rightarrow> pydict \<Rightarrow> exn + pyval" where
  "battery_charge repr cleaned =
     (case map_of cleaned ''charge'' of
        None \<Rightarrow> Inr (PInt 0)
      | Some c \<Rightarrow>
          (case search_decimal (py_str repr c) of
             None \<Rightarrow> Inr (PInt 0)
           | Some g \<Rightarrow> bindE (float_of_text g) (\<lambda>r. Inr (PFloat r))))"

text \<open>\<^verbatim>\<open>isinstance(v, (int, float))\<close>: a bool is an int.\<close>

definition is_number :: "pyval \<Rightarrow> bool" where
  "is_number v = (num_val v \<noteq> None)"

definition battery_volts :: "(pyval \<Rightarrow> string) \<Rightarrow> pydict \<Rightarrow> pyval" where
  "battery_volts repr cleaned =
     (case map_of cleaned ''volts'' of
        None \<Rightarrow> PStr ''''
      | Some v \<Rightarrow> PStr (if is_number v then py_str repr v @ '' V'' else py_str repr v))"

definition battery_cleaned :: "(pyval \<Rightarrow> string) \<Rightarrow> pydict \<Rightarrow> pydict \<Rightarrow> exn + pydict" where
  "battery_cleaned repr result cleaned =
     (if dhas cleaned ''ID'' \<or> dhas cleaned ''charge''
       then bindE (battery_charge repr cleaned) (\<lambda>charge.
              Inr (dappend (dset result ''present'' (PBool True)) ''batteries'' (PDict
                [(''id'', getd cleaned ''ID''), (''charge'', charge),
                 (''condition'', getd cleaned ''condition''),
                 (''volts'', battery_volts repr cleaned), (''volts_min'', getd cleaned ''min''),
                 (''model'', getd cleaned ''model''), (''type'', getd cleaned ''type''),
                 (''serial'', getd cleaned ''serial''), (''charging'', getd cleaned ''charging''),
                 (''status'', getd cleaned ''status''), (''cycles'', getd cleaned ''cycles'')])))
       else Inr result)"

definition battery_item :: "(pyval \<Rightarrow> string) \<Rightarrow> pydict \<Rightarrow> pyval \<Rightarrow> exn + pydict" where
  "battery_item repr result item = bindE (clean_item item) (battery_cleaned repr result)"

text \<open>The first battery's fields again at the top level, or their defaults.\<close>

definition battery_compat :: "pydict \<Rightarrow> pydict" where
  "battery_compat result =
     (case list_items (dget result ''batteries'' (PList [])) of
        first # rest \<Rightarrow>
          dupdate result
            (map (\<lambda>k. (k, vget first k PNone))
               [''charge'', ''status'', ''condition'', ''model'', ''volts'', ''serial'', ''type'',
                ''cycles''])
      | [] \<Rightarrow>
          dupdate result
            [(''charge'', PInt 0), (''status'', PStr ''''), (''condition'', PStr ''''),
             (''model'', PStr ''''), (''volts'', PStr ''''), (''serial'', PStr ''''),
             (''type'', PStr ''''), (''cycles'', PStr '''')])"

definition parse_battery_section :: "env \<Rightarrow> pyval \<Rightarrow> exn + pydict" where
  "parse_battery_section e items =
     bindE (for_items (battery_item (repr_ext e))
              [(''present'', PBool False), (''batteries'', PList [])] items) (\<lambda>result.
       Inr (battery_compat result))"

subsection \<open>Sensors\<close>

text \<open>
  \<^verbatim>\<open>
  if "cpu" in cleaned:
      temp_val = cleaned["cpu"]
      if isinstance(temp_val, (int, float)):
          result["temps"].append({"name": "CPU", "temp": temp_val})
      elif isinstance(temp_val, str):
          match = re.search(r"([\d.]+)", temp_val)
          if match:
              result["temps"].append({"name": "CPU", "temp": float(match.group(1))})
  \<close>
  The conversion is not inside a \<^verbatim>\<open>try\<close>.
\<close>

definition temp_entry :: "string \<Rightarrow> pyval \<Rightarrow> pyval" where
  "temp_entry name temp = PDict [(''name'', PStr name), (''temp'', temp)]"

definition sensors_cpu :: "pydict \<Rightarrow> pydict \<Rightarrow> exn + pydict" where
  "sensors_cpu cleaned result =
     (case map_of cleaned ''cpu'' of
        None \<Rightarrow> Inr result
      | Some temp_val \<Rightarrow>
          if is_number temp_val then Inr (dappend result ''temps'' (temp_entry ''CPU'' temp_val))
          else if is_text temp_val
          then (case search_num (text_of temp_val) of
                  None \<Rightarrow> Inr result
                | Some g \<Rightarrow>
                    bindE (float_of_text g) (\<lambda>r.
                      Inr (dappend result ''temps'' (temp_entry ''CPU'' (PFloat r)))))
          else Inr result)"

definition sensors_number :: "pydict \<Rightarrow> string \<Rightarrow> string \<Rightarrow> pydict \<Rightarrow> pydict" where
  "sensors_number cleaned k name result =
     (case map_of cleaned k of
        None \<Rightarrow> result
      | Some temp_val \<Rightarrow>
          if is_number temp_val then dappend result ''temps'' (temp_entry name temp_val)
          else result)"

definition sensors_cleaned :: "pydict \<Rightarrow> pydict \<Rightarrow> exn + pydict" where
  "sensors_cleaned result cleaned =
     bindE (sensors_cpu cleaned result) (\<lambda>result.
       Inr (sensors_number cleaned ''gpu'' ''GPU''
             (sensors_number cleaned ''mobo'' ''Motherboard'' result)))"

definition sensors_item :: "pydict \<Rightarrow> pyval \<Rightarrow> exn + pydict" where
  "sensors_item result item = bindE (clean_item item) (sensors_cleaned result)"

definition parse_sensors_section :: "env \<Rightarrow> pyval \<Rightarrow> exn + pydict" where
  "parse_sensors_section e items =
     bindE (for_items sensors_item
              [(''temps'', PList []), (''fans'', PList []), (''sensors_cmd'', PStr '''')] items)
       (\<lambda>result.
         Inr (case sensors_cmd e of
                Some out \<Rightarrow> dset result ''sensors_cmd'' (PStr out)
              | None \<Rightarrow> result))"

subsection \<open>Info\<close>

definition info_memory :: "pydict \<Rightarrow> pydict \<Rightarrow> pydict" where
  "info_memory cleaned result =
     (if dhas cleaned ''total'' \<and> dhas cleaned ''available''
      then dupdate result
             [(''memory_total'', getd cleaned ''total''),
              (''memory_available'', getd cleaned ''available''),
              (''memory_used'', getd cleaned ''used'')]
      else result)"

definition info_processes :: "(pyval \<Rightarrow> string) \<Rightarrow> pydict \<Rightarrow> pydict \<Rightarrow> pydict" where
  "info_processes repr cleaned result =
     (if dhas cleaned ''Processes''
      then dupdate result
             ([(''processes'', PStr (py_str repr (getd cleaned ''Processes''))),
               (''uptime'', getd cleaned ''uptime''), (''power_states'', getd cleaned ''states''),
               (''suspend_mode'', getd cleaned ''suspend''),
               (''hibernate_mode'', getd cleaned ''hibernate''),
               (''hibernate_image'', getd cleaned ''image'')]
              @ (if dhas cleaned ''Init''
                 then [(''init'', getd cleaned ''Init''), (''init_version'', getd cleaned ''v''),
                       (''init_services'', getd cleaned ''services'')]
                 else []))
      else result)"

definition info_packages :: "(pyval \<Rightarrow> string) \<Rightarrow> pydict \<Rightarrow> pydict \<Rightarrow> pydict" where
  "info_packages repr cleaned result =
     (if dhas cleaned ''Packages''
      then dupdate result
             [(''packages'', PStr (py_str repr (getd cleaned ''Packages''))),
              (''shell'', getd cleaned ''Shell''), (''shell_version'', getd cleaned ''v''),
              (''inxi_version'', getd cleaned ''inxi''), (''gcc_version'', getd cleaned ''gcc''),
              (''clang_version'', getd cleaned ''clang'')]
      else result)"

definition info_cleaned :: "(pyval \<Rightarrow> string) \<Rightarrow> pydict \<Rightarrow> pydict \<Rightarrow> exn + pydict" where
  "info_cleaned repr result cleaned =
     Inr (copy_str repr cleaned ''Repos'' ''repos''
             (info_packages repr cleaned
               (info_processes repr cleaned
                 (info_memory cleaned result))))"

definition info_item :: "(pyval \<Rightarrow> string) \<Rightarrow> pydict \<Rightarrow> pyval \<Rightarrow> exn + pydict" where
  "info_item repr result item = bindE (clean_item item) (info_cleaned repr result)"

definition parse_info_section :: "env \<Rightarrow> pyval \<Rightarrow> exn + pydict" where
  "parse_info_section e items = for_items (info_item (repr_ext e)) [] items"

subsection \<open>Bluetooth\<close>

definition bluetooth_cleaned :: "pydict \<Rightarrow> pydict \<Rightarrow> exn + pydict" where
  "bluetooth_cleaned result cleaned =
     Inr (if dhas cleaned ''Device''
            then dappend result ''devices'' (PDict
                   [(''name'', getd cleaned ''Device''), (''vendor'', getd cleaned ''vendor''),
                    (''driver'', getd cleaned ''driver''), (''bus_id'', getd cleaned ''bus-ID''),
                    (''chip_id'', getd cleaned ''chip-ID''),
                    (''class_id'', getd cleaned ''class-ID''), (''state'', getd cleaned ''state''),
                    (''bt_version'', getd cleaned ''bt-v'')])
            else result)"

definition bluetooth_item :: "pydict \<Rightarrow> pyval \<Rightarrow> exn + pydict" where
  "bluetooth_item result item = bindE (clean_item item) (bluetooth_cleaned result)"

definition parse_bluetooth_section :: "pyval \<Rightarrow> exn + pydict" where
  "parse_bluetooth_section items = for_items bluetooth_item [(''devices'', PList [])] items"

subsection \<open>Processes\<close>

text \<open>The loop variables are \<^verbatim>\<open>result\<close> and \<^verbatim>\<open>current_section\<close>.\<close>

definition processes_cleaned :: "pydict \<times> string option \<Rightarrow> pydict \<Rightarrow> exn + pydict \<times> string option" where
  "processes_cleaned st cleaned =
     Inr (if dhas cleaned ''CPU top'' then (fst st, Some ''cpu'')
            else if dhas cleaned ''Memory top'' then (fst st, Some ''memory'')
            else if dhas cleaned ''command''
            then (let process = PDict
                        [(''command'', getd cleaned ''command''), (''pid'', getd cleaned ''pid''),
                         (''cpu'', getd cleaned ''cpu''), (''mem'', getd cleaned ''mem'')]
                  in if snd st = Some ''cpu'' then (dappend (fst st) ''cpu_top'' process, snd st)
                     else if snd st = Some ''memory''
                     then (dappend (fst st) ''memory_top'' process, snd st)
                     else st)
            else st)"

definition processes_item :: "pydict \<times> string option \<Rightarrow> pyval \<Rightarrow> exn + pydict \<times> string option" where
  "processes_item st item = bindE (clean_item item) (processes_cleaned st)"

definition parse_processes_section :: "pyval \<Rightarrow> exn + pydict" where
  "parse_processes_section items =
     bindE (for_items processes_item ([(''cpu_top'', PList []), (''memory_top'', PList [])], None)
              items) (\<lambda>st. Inr (fst st))"

subsection \<open>Repos\<close>

text \<open>
  The only parser that checks the shape of what it is given: a section that is not a
  list gives the empty record, and an item is read as a dictionary or as a list of URLs,
  or skipped. The loop variables are \<^verbatim>\<open>result\<close> and \<^verbatim>\<open>repo_name\<close>.
\<close>

fun is_dict :: "pyval \<Rightarrow> bool" where
  "is_dict (PDict d) = True"
| "is_dict (PMap m) = True"
| "is_dict _ = False"

definition packages_of :: "pydict \<Rightarrow> (pyval \<times> pyval) list" where
  "packages_of result = map_items (dget result ''packages'' (PMap []))"

text \<open>
  \<^verbatim>\<open>
  if "Packages" in cleaned:
      result["packages"]["total"] = str(cleaned.get("Packages", ""))
  if "pm" in cleaned:
      pm_name = cleaned.get("pm", "")
      pm_pkgs = cleaned.get("pkgs", 0)
      result["packages"][pm_name] = pm_pkgs
  \<close>
\<close>

definition repos_total :: "(pyval \<Rightarrow> string) \<Rightarrow> pydict \<Rightarrow> pydict \<Rightarrow> pydict" where
  "repos_total repr cleaned result =
     (if dhas cleaned ''Packages''
      then dset result ''packages''
             (PMap (hset (packages_of result) (PStr ''total'')
                      (PStr (py_str repr (getd cleaned ''Packages'')))))
      else result)"

definition repos_pm :: "pydict \<Rightarrow> pydict \<Rightarrow> exn + pydict" where
  "repos_pm cleaned result =
     (if dhas cleaned ''pm''
      then (if hashable (getd cleaned ''pm'')
            then Inr (dset result ''packages''
                        (PMap (hset (packages_of result) (getd cleaned ''pm'')
                                 (dget cleaned ''pkgs'' (PInt 0)))))
            else Inl TypeError)
      else Inr result)"

text \<open>
  \<^verbatim>\<open>
  for key in cleaned:
      if "repo" in key.lower() or "Active" in key:
          repo_name = cleaned[key]
  \<close>
\<close>

definition repos_name :: "string \<times> pyval \<Rightarrow> pyval \<Rightarrow> pyval" where
  "repos_name kv repo_name =
     (if str_contains ''repo'' (py_lower (fst kv)) \<or> str_contains ''Active'' (fst kv) then snd kv
      else repo_name)"

definition repos_url :: "pyval \<Rightarrow> pyval \<Rightarrow> pydict \<Rightarrow> pydict" where
  "repos_url repo_name url result =
     (if truthy url \<and> is_text url
      then dappend result ''repos'' (PDict [(''name'', repo_name), (''url'', url)])
      else result)"

definition repos_cleaned :: "(pyval \<Rightarrow> string) \<Rightarrow> pydict \<times> pyval \<Rightarrow> pydict \<Rightarrow> exn + pydict \<times> pyval" where
  "repos_cleaned repr st cleaned =
     bindE (repos_pm cleaned (repos_total repr cleaned (fst st))) (\<lambda>result.
       Inr (result, fold repos_name cleaned (snd st)))"

definition repos_item :: "(pyval \<Rightarrow> string) \<Rightarrow> pydict \<times> pyval \<Rightarrow> pyval \<Rightarrow> exn + pydict \<times> pyval" where
  "repos_item repr st item =
     (if is_dict item then bindE (clean_item item) (repos_cleaned repr st)
      else if is_list item
      then Inr (fold (repos_url (snd st)) (list_items item) (fst st), snd st)
      else Inr st)"

definition parse_repos_section :: "env \<Rightarrow> pyval \<Rightarrow> exn + pydict" where
  "parse_repos_section e items =
     (if \<not> is_list items then Inr [(''packages'', PMap []), (''repos'', PList [])]
      else bindE (foldE (repos_item (repr_ext e))
                    ([(''packages'', PMap []), (''repos'', PList [])], PStr '''')
                    (list_items items)) (\<lambda>st. Inr (fst st)))"

subsection \<open>USB\<close>

definition usb_cleaned :: "pydict \<Rightarrow> pydict \<Rightarrow> exn + pydict" where
  "usb_cleaned result cleaned =
     Inr (if dhas cleaned ''Hub''
            then dappend result ''hubs'' (PDict
                   [(''name'', getd cleaned ''Hub''), (''info'', getd cleaned ''info''),
                    (''ports'', getd cleaned ''ports''), (''rev'', getd cleaned ''rev''),
                    (''speed'', getd cleaned ''speed''), (''lanes'', getd cleaned ''lanes''),
                    (''mode'', getd cleaned ''mode''), (''chip_id'', getd cleaned ''chip-ID''),
                    (''class_id'', getd cleaned ''class-ID'')])
            else if dhas cleaned ''Device''
            then dappend result ''devices'' (PDict
                   [(''name'', getd cleaned ''Device''), (''info'', getd cleaned ''info''),
                    (''type'', getd cleaned ''type''), (''driver'', getd cleaned ''driver''),
                    (''interfaces'', getd cleaned ''interfaces''), (''rev'', getd cleaned ''rev''),
                    (''speed'', getd cleaned ''speed''), (''lanes'', getd cleaned ''lanes''),
                    (''mode'', getd cleaned ''mode''), (''power'', getd cleaned ''power''),
                    (''chip_id'', getd cleaned ''chip-ID''),
                    (''class_id'', getd cleaned ''class-ID''),
                    (''serial'', getd cleaned ''serial'')])
            else result)"

definition usb_item :: "pydict \<Rightarrow> pyval \<Rightarrow> exn + pydict" where
  "usb_item result item = bindE (clean_item item) (usb_cleaned result)"

definition parse_usb_section :: "pyval \<Rightarrow> exn + pydict" where
  "parse_usb_section items =
     for_items usb_item [(''devices'', PList []), (''hubs'', PList [])] items"

section \<open>The orchestrator\<close>

text \<open>The result \<^verbatim>\<open>parse_full\<close> starts from: the eleven category keys, each empty.\<close>

definition category_keys :: "string list" where
  "category_keys =
     [''cpu'', ''gpu'', ''memory'', ''audio'', ''network'', ''disk'', ''machine'', ''system'',
      ''battery'', ''sensors'', ''bluetooth'']"

definition seed :: pydict where
  "seed = map (\<lambda>k. (k, PDict [])) category_keys"

text \<open>\<^verbatim>\<open>result[k] = parser(value)\<close>\<close>

definition store :: "pydict \<Rightarrow> string \<Rightarrow> exn + pydict \<Rightarrow> exn + pydict" where
  "store result k parsed = bindE parsed (\<lambda>record. Inr (dset result k (PDict record)))"

text \<open>
  \<^verbatim>\<open>
  info_data = self._parse_info_section(value)
  if "system" not in result:
      result["system"] = {}
  result["system"].update(info_data)
  \<close>
\<close>

definition merge_info :: "pydict \<Rightarrow> exn + pydict \<Rightarrow> exn + pydict" where
  "merge_info result parsed =
     bindE parsed (\<lambda>info_data.
       let result = (if \<not> dhas result ''system'' then dset result ''system'' (PDict []) else result)
       in case dget result ''system'' PNone of
            PDict system \<Rightarrow> Inr (dset result ''system'' (PDict (dupdate system info_data)))
          | _ \<Rightarrow> Inl AttributeError)"

text \<open>
  The body of the inner loop: the cleaned section name is matched against the
  triggers in the order of the \<^verbatim>\<open>if\<close>/\<^verbatim>\<open>elif\<close> chain, the first that occurs in it
  decides, and a name with none of them is skipped. \<open>data\<close> is the whole document,
  which the disk parser reads again.
\<close>

definition parse_section :: "env \<Rightarrow> pyval list \<Rightarrow> pydict \<Rightarrow> string \<times> pyval \<Rightarrow> exn + pydict" where
  "parse_section e data result kv =
     (let section_name = clean_key (fst kv); v = snd kv
      in if str_contains ''CPU'' section_name then store result ''cpu'' (parse_cpu_section e v)
         else if str_contains ''Graphics'' section_name
         then store result ''gpu'' (parse_gpu_section v)
         else if str_contains ''Memory'' section_name
         then store result ''memory'' (parse_memory_section e v)
         else if str_contains ''Audio'' section_name
         then store result ''audio'' (parse_audio_section v)
         else if str_contains ''Network'' section_name
         then store result ''network'' (parse_network_section e v)
         else if str_contains ''Drives'' section_name
         then store result ''disk'' (parse_disk_section e v data)
         else if str_contains ''System'' section_name
         then store result ''system'' (parse_system_section e v)
         else if str_contains ''Machine'' section_name
         then store result ''machine'' (parse_machine_section v)
         else if str_contains ''Battery'' section_name
         then store result ''battery'' (parse_battery_section e v)
         else if str_contains ''Sensors'' section_name
         then store result ''sensors'' (parse_sensors_section e v)
         else if str_contains ''Info'' section_name
         then merge_info result (parse_info_section e v)
         else if str_contains ''Processes'' section_name
         then store result ''processes'' (parse_processes_section v)
         else if str_contains ''Repos'' section_name
         then store result ''repos'' (parse_repos_section e v)
         else if str_contains ''USB'' section_name
         then store result ''usb_inxi'' (parse_usb_section v)
         else if str_contains ''Bluetooth'' section_name
         then store result ''bluetooth'' (parse_bluetooth_section v)
         else Inr result)"

text \<open>\<^verbatim>\<open>for key, value in section.items():\<close>\<close>

definition parse_sections :: "env \<Rightarrow> pyval list \<Rightarrow> pydict \<Rightarrow> pyval \<Rightarrow> exn + pydict" where
  "parse_sections e data result section =
     bindE (dict_items section) (foldE (parse_section e data) result)"

text \<open>
  \<^verbatim>\<open>
  if not data or not isinstance(data, list):
      return result
  for section in data: ...
  result["pci_inxi"] = self._extract_pci_devices(result)
  return result
  \<close>
\<close>

definition parse_full :: "env \<Rightarrow> pyval \<Rightarrow> exn + pydict" where
  "parse_full e data =
     (if \<not> truthy data \<or> \<not> is_list data then Inr seed
      else bindE (foldE (parse_sections e (list_items data)) seed (list_items data)) (\<lambda>result.
           store result ''pci_inxi'' (extract_pci_devices result)))"

section \<open>Reading the records\<close>

text \<open>The device list of a record, and the bus address of a device entry.\<close>

definition devices_of :: "pydict \<Rightarrow> pyval list" where
  "devices_of record = list_items (dget record ''devices'' (PList []))"

definition bus_id_of :: "pyval \<Rightarrow> pyval" where
  "bus_id_of device = vget device ''bus_id'' (PStr '''')"

text \<open>
  The invariant of the three loops of the synthesizer: \<^verbatim>\<open>seen_bus_ids\<close> holds the bus
  addresses of \<^verbatim>\<open>devices\<close>, in order, and none twice.
\<close>

definition pci_inv :: "pci_state \<Rightarrow> bool" where
  "pci_inv st = (snd st = map bus_id_of (fst st) \<and> distinct (snd st))"

text \<open>What one pass through the body of any of the loops does to the loop variables.\<close>

definition pci_step_ok :: "string \<Rightarrow> string \<Rightarrow> pci_state \<Rightarrow> pyval \<Rightarrow> pci_state \<Rightarrow> bool" where
  "pci_step_ok c cd st device st' =
     (st' = st \<or>
      (truthy (bus_id_of device) \<and> bus_id_of device \<notin> set (snd st) \<and>
       st' = (fst st @ [pci_entry c cd device (bus_id_of device)], snd st @ [bus_id_of device])))"

subsection \<open>Example documents\<close>

text \<open>
  A parsed model in which the address \<open>01:00.0\<close> is a GPU and an audio device,
  \<open>00:1f.3\<close> an audio and a network device, and one audio device is on USB.
\<close>

definition pci_example :: pydict where
  "pci_example =
     [(''gpu'', PDict [(''devices'', PList
         [PDict [(''name'', PStr ''GPU''), (''bus_id'', PStr ''01:00.0'')]])]),
      (''audio'', PDict [(''devices'', PList
         [PDict [(''name'', PStr ''HDMI''), (''bus_id'', PStr ''01:00.0'')],
          PDict [(''name'', PStr ''PCH''), (''bus_id'', PStr ''00:1f.3'')],
          PDict [(''name'', PStr ''USB Audio''), (''bus_id'', PStr ''1-2:3'')]])]),
      (''network'', PDict [(''devices'', PList
         [PDict [(''name'', PStr ''eth''), (''bus_id'', PStr ''00:1f.3'')],
          PDict [(''name'', PStr ''wifi''), (''bus_id'', PStr ''02:00.0'')]])])]"

text \<open>The three GPU-section items the classification is shown on.\<close>

definition webcam_item :: pyval where
  "webcam_item =
     PDict [(''011#1#1#Device'', PStr ''Integrated Webcam''), (''012#1#2#driver'', PStr ''uvcvideo'')]"

definition nvidia_item :: pyval where
  "nvidia_item = PDict [(''011#1#1#Device'', PStr ''NVIDIA GeForce RTX 3080'')]"

definition amd_camera_item :: pyval where
  "amd_camera_item =
     PDict [(''011#1#1#Device'', PStr ''AMD Camera Hub''), (''012#1#2#driver'', PStr ''uvcvideo'')]"

text \<open>The cores that the \<^verbatim>\<open>Info\<close> text of a cleaned CPU item names, if any.\<close>

definition mined_cores :: "pydict \<Rightarrow> int option" where
  "mined_cores cleaned =
     (let info = getd cleaned ''Info''
      in if truthy info \<and> is_text info then info_cores (py_lower (text_of info)) else None)"

text \<open>
  The environment of a machine on which none of the commands answers, with an empty
  \<open>repr\<close>; and a CPU section with four per-thread speeds and nothing else.
\<close>

definition quiet_env :: env where
  "quiet_env =
     \<lparr>repr_ext = (\<lambda>v. []), ip_addr_devices = None, ip_addr_virtual = None, gateway = [],
      gateway_interface = [], dns_servers = [], uptime = None, hostname = None, shell = [],
      install_date = None, sensors_cmd = None\<rparr>"

definition cpu_example :: pyval where
  "cpu_example =
     PList [PDict [(''001#0#2#0'', PInt 2400), (''002#0#2#1'', PInt 2400),
                   (''003#0#2#2'', PInt 2400), (''004#0#2#3'', PInt 2400)]]"

text \<open>
  Memory sections: one whose summary is given in MiB, and one with a summary in GiB, an
  occupied slot and an empty slot.
\<close>

definition mib_item :: pyval where
  "mib_item = PDict [(''001#1#1#total'', PStr ''512 MiB'')]"

definition memory_example :: pyval where
  "memory_example =
     PList [PDict [(''001#1#1#total'', PStr ''15.5 GiB''), (''002#1#1#used'', PStr ''7.2 GiB (46.5%)'')],
            PDict [(''003#1#2#Device'', PStr ''DIMM A''), (''004#1#3#size'', PStr ''8 GiB'')],
            PDict [(''005#1#2#Device'', PStr ''DIMM B''), (''006#1#3#size'', PStr ''No Module Installed'')]]"

subsection \<open>Percentages\<close>



text \<open>A category record of a model, and the entries of one of its lists.\<close>

definition category :: "pydict \<Rightarrow> string \<Rightarrow> pyval" where
  "category model k = dget model k (PDict [])"








subsection \<open>The model\<close>

text \<open>
  The parser of category \<open>k\<close> returns \<open>record\<close> on the section value \<open>v\<close>: what the
  orchestrator stores under \<open>k\<close>. (An \<^verbatim>\<open>Info\<close> section is merged into \<^verbatim>\<open>system\<close>
  instead.)
\<close>

definition section_record :: "env \<Rightarrow> pyval list \<Rightarrow> pyval \<Rightarrow> string \<Rightarrow> pydict \<Rightarrow> bool" where
  "section_record e data v k record =
     (k = ''cpu'' \<and> parse_cpu_section e v = Inr record
      \<or> k = ''gpu'' \<and> parse_gpu_section v = Inr record
      \<or> k = ''memory'' \<and> parse_memory_section e v = Inr record
      \<or> k = ''audio'' \<and> parse_audio_section v = Inr record
      \<or> k = ''network'' \<and> parse_network_section e v = Inr record
      \<or> k = ''disk'' \<and> parse_disk_section e v data = Inr record
      \<or> k = ''system'' \<and> parse_system_section e v = Inr record
      \<or> k = ''machine'' \<and> parse_machine_section v = Inr record
      \<or> k = ''battery'' \<and> parse_battery_section e v = Inr record
      \<or> k = ''sensors'' \<and> parse_sensors_section e v = Inr record
      \<or> k = ''processes'' \<and> parse_processes_section v = Inr record
      \<or> k = ''repos'' \<and> parse_repos_section e v = Inr record
      \<or> k = ''usb_inxi'' \<and> parse_usb_section v = Inr record
      \<or> k = ''bluetooth'' \<and> parse_bluetooth_section v = Inr record)"

text \<open>Every category key is present and holds a dictionary.\<close>

definition schema_ok :: "pydict \<Rightarrow> bool" where
  "schema_ok model = (\<forall>k \<in> set category_keys. \<exists>record. map_of model k = Some (PDict record))"


text \<open>
  The \<^verbatim>\<open>if\<close>/\<^verbatim>\<open>elif\<close> chain of the orchestrator as a table: the triggers in order, each
  with what its branch does to the result.
\<close>

definition section_table :: "env \<Rightarrow> pyval list \<Rightarrow> pyval \<Rightarrow> (string \<times> (pydict \<Rightarrow> exn + pydict)) list" where
  "section_table e data v =
     [(''CPU'', \<lambda>r. store r ''cpu'' (parse_cpu_section e v)),
      (''Graphics'', \<lambda>r. store r ''gpu'' (parse_gpu_section v)),
      (''Memory'', \<lambda>r. store r ''memory'' (parse_memory_section e v)),
      (''Audio'', \<lambda>r. store r ''audio'' (parse_audio_section v)),
      (''Network'', \<lambda>r. store r ''network'' (parse_network_section e v)),
      (''Drives'', \<lambda>r. store r ''disk'' (parse_disk_section e v data)),
      (''System'', \<lambda>r. store r ''system'' (parse_system_section e v)),
      (''Machine'', \<lambda>r. store r ''machine'' (parse_machine_section v)),
      (''Battery'', \<lambda>r. store r ''battery'' (parse_battery_section e v)),
      (''Sensors'', \<lambda>r. store r ''sensors'' (parse_sensors_section e v)),
      (''Info'', \<lambda>r. merge_info r (parse_info_section e v)),
      (''Processes'', \<lambda>r. store r ''processes'' (parse_processes_section v)),
      (''Repos'', \<lambda>r. store r ''repos'' (parse_repos_section e v)),
      (''USB'', \<lambda>r. store r ''usb_inxi'' (parse_usb_section v)),
      (''Bluetooth'', \<lambda>r. store r ''bluetooth'' (parse_bluetooth_section v))]"

subsection \<open>Documents of the expected shape\<close>

text \<open>
  A document has the expected shape when it is a list of section dictionaries, every
  section value is a list of item dictionaries, and every field of an item is a scalar
  (or the empty list), the fields whose text the parser inspects with a string method
  being text when they are present.
\<close>

fun scalar :: "pyval \<Rightarrow> bool" where
  "scalar (PList xs) = (xs = [])"
| "scalar (PDict d) = False"
| "scalar (PMap m) = False"
| "scalar _ = True"

definition text_keys :: "string list" where
  "text_keys = [''Info'', ''Device'', ''driver'', ''type'', ''IF'', ''IF-ID'', ''bus-ID'']"

definition field_ok :: "string \<times> pyval \<Rightarrow> bool" where
  "field_ok kv =
     (scalar (snd kv) \<and> (clean_key (fst kv) \<in> set text_keys \<longrightarrow> is_text (snd kv) \<or> absent (snd kv)))"

fun item_ok :: "pyval \<Rightarrow> bool" where
  "item_ok (PDict kvs) = list_all field_ok kvs"
| "item_ok _ = False"




text \<open>What cleaning such an item gives.\<close>

definition cleaned_ok :: "pydict \<Rightarrow> bool" where
  "cleaned_ok c =
     (\<forall>kv \<in> set c. scalar (snd kv) \<and> \<not> absent (snd kv)
                     \<and> (fst kv \<in> set text_keys \<longrightarrow> is_text (snd kv)))"






subsection \<open>Classification in the Graphics section\<close>

text \<open>
  The lower-case device name and driver of a cleaned item, and the two classes of an item
  that carries a \<^verbatim>\<open>Device\<close> key: a webcam matches the webcam keywords and not the GPU
  keywords; everything else with a \<^verbatim>\<open>Device\<close> key is a GPU device.
\<close>

definition device_name :: "pydict \<Rightarrow> string" where
  "device_name cleaned = py_lower (text_of (getd cleaned ''Device''))"

definition driver_name :: "pydict \<Rightarrow> string" where
  "driver_name cleaned = py_lower (text_of (getd cleaned ''driver''))"

definition webcam_only :: "pydict \<Rightarrow> bool" where
  "webcam_only cleaned =
     (dhas cleaned ''Device''
      \<and> is_webcam (device_name cleaned) (driver_name cleaned)
      \<and> \<not> is_gpu (device_name cleaned) (driver_name cleaned))"

definition gpu_like :: "pydict \<Rightarrow> bool" where
  "gpu_like cleaned = (dhas cleaned ''Device'' \<and> \<not> webcam_only cleaned)"

text \<open>The name and the driver of an item with a \<^verbatim>\<open>Device\<close> key are text.\<close>

definition names_text :: "pydict \<Rightarrow> bool" where
  "names_text cleaned =
     (dhas cleaned ''Device'' \<longrightarrow> is_text (getd cleaned ''Device'') \<and> is_text (getd cleaned ''driver''))"

text \<open>A section with a display, a webcam, a GPU and a device that matches both keyword lists.\<close>

definition display_item :: pyval where
  "display_item = PDict [(''020#1#1#Display'', PStr ''x11''), (''021#1#2#server'', PStr ''X.Org'')]"

definition graphics_example :: "pyval list" where
  "graphics_example = [webcam_item, display_item, nvidia_item, amd_camera_item]"

subsection \<open>What a document of the expected shape is read into\<close>












section \<open>Basic facts\<close>

lemma bindE_Inr [simp]: "bindE (Inr x) f = f x"
  by (simp add: bindE_def)

lemma bindE_Inl [simp]: "bindE (Inl e) f = Inl e"
  by (simp add: bindE_def)

lemma bindE_eq_Inr: "bindE m f = Inr y \<longleftrightarrow> (\<exists>x. m = Inr x \<and> f x = Inr y)"
  by (cases m) auto

lemma map_of_dset: "map_of (dset d k v) = (map_of d)(k \<mapsto> v)"
  by (induction d) auto

lemma dget_dset: "dget (dset d k v) k' dflt = (if k' = k then v else dget d k' dflt)"
  by (simp add: dget_def map_of_dset)

lemma dhas_dset: "dhas (dset d k v) k' \<longleftrightarrow> k' = k \<or> dhas d k'"
  by (simp add: dhas_def map_of_dset)

lemma dget_dappend: 
  "dget (dappend d k x) k' dflt =
     (if k' = k then PList (list_items (dget d k (PList [])) @ [x]) else dget d k' dflt)"
  by (simp add: dappend_def dget_dset)

lemma dhas_dappend: "dhas (dappend d k x) k' \<longleftrightarrow> k' = k \<or> dhas d k'"
  by (simp add: dappend_def dhas_dset)

lemma dget_copy_field:
  "dget (copy_field cleaned k k' result) x dflt =
     (if x = k' \<and> dhas cleaned k then dget cleaned k dflt else dget result x dflt)"
  by (cases "map_of cleaned k") (simp_all add: copy_field_def dget_dset dhas_def, simp_all add: dget_def)

lemma dget_copy_fields_other:
  "x \<notin> snd ` set pairs \<Longrightarrow> dget (copy_fields cleaned pairs result) x dflt = dget result x dflt"
  unfolding copy_fields_def
  by (induction pairs arbitrary: result) (auto simp: dget_copy_field)

lemma py_eq_refl [simp]: "py_eq a a"
  by (simp add: py_eq_def split: option.splits)

lemma val_get_Inr: "val_get v k dflt = Inr x \<Longrightarrow> x = vget v k dflt"
  by (cases v) auto

lemma foldE_append:
  "foldE f s (xs @ ys) = bindE (foldE f s xs) (\<lambda>s'. foldE f s' ys)"
  by (induction xs arbitrary: s) (auto split: sum.splits)

lemma foldE_invariant:
  assumes "foldE f s xs = Inr s'" and "P s"
    and "\<And>s x s'. x \<in> set xs \<Longrightarrow> f s x = Inr s' \<Longrightarrow> P s \<Longrightarrow> P s'"
  shows "P s'"
  using assms
proof (induction xs arbitrary: s)
  case Nil
  then show ?case by simp
next
  case (Cons x xs)
  from Cons.prems(1) obtain s1 where s1: "f s x = Inr s1" and rest: "foldE f s1 xs = Inr s'"
    by (auto split: sum.splits)
  have "P s1" using Cons.prems(3) [OF _ s1 Cons.prems(2)] by simp
  moreover have "P t'" if "x' \<in> set xs" "f t x' = Inr t'" "P t" for t x' t'
    using Cons.prems(3) [of x' t t'] that by simp
  ultimately show ?case using Cons.IH [OF rest] by blast
qed


lemma getd_dset: "getd (dset d k v) k' = (if k' = k then v else getd d k')"
  by (simp add: getd_def dget_dset)

lemma dget_dupdate_Nil [simp]: "dget (dupdate d []) k dflt = dget d k dflt"
  by simp

lemma dget_dupdate_Cons:
  "dget (dupdate d ((k', v) # kvs)) k dflt = dget (dupdate (dset d k' v) kvs) k dflt"
  by simp

lemma dget_dupdate_other:
  "k \<notin> fst ` set kvs \<Longrightarrow> dget (dupdate d kvs) k dflt = dget d k dflt"
  by (induction kvs arbitrary: d) (auto simp: dget_dset)

lemma dget_copy_str:
  "dget (copy_str repr cleaned k k' r) x d =
     (if x = k' \<and> dhas cleaned k then PStr (py_str repr (getd cleaned k)) else dget r x d)"
  by (cases "map_of cleaned k")
     (simp_all add: copy_str_def dget_dset dhas_def getd_def, simp_all add: dget_def)

section \<open>The key normalizer\<close>

lemma py_split_nonempty: "py_split sep s \<noteq> []"
  by (induction s) (auto split: list.splits)

lemma py_split_no_sep: "sep \<notin> set s \<Longrightarrow> py_split sep s = [s]"
  by (induction s) auto

lemma py_split_sep_tl: "sep \<in> set s \<Longrightarrow> tl (py_split sep s) \<noteq> []"
  by (induction s) (auto simp: py_split_nonempty split: list.splits)

lemma last_py_split_append:
  "last (py_split sep (pre @ sep # suf)) = last (py_split sep suf)"
proof (induction pre)
  case Nil
  show ?case by (simp add: py_split_nonempty)
next
  case (Cons c pre)
  have ne: "tl (py_split sep (pre @ sep # suf)) \<noteq> []"
    by (rule py_split_sep_tl) simp
  then obtain w w' ws where "py_split sep (pre @ sep # suf) = w # w' # ws"
    by (cases "py_split sep (pre @ sep # suf)"; cases "tl (py_split sep (pre @ sep # suf))") auto
  with Cons show ?case by simp
qed

lemma clean_key_after_last:
  assumes "x = pre @ CHR ''#'' # suf" and "CHR ''#'' \<notin> set suf"
  shows "clean_key x = suf"
  using assms by (simp add: clean_key_def last_py_split_append py_split_no_sep)

lemma clean_key_unchanged: "CHR ''#'' \<notin> set x \<Longrightarrow> clean_key x = x"
  by (simp add: clean_key_def)

lemma clean_key_no_hash: "CHR ''#'' \<notin> set (clean_key x)"
proof (cases "CHR ''#'' \<in> set x")
  case True
  then obtain pre suf where "x = pre @ CHR ''#'' # suf" "CHR ''#'' \<notin> set suf"
    by (meson split_list_last)
  then show ?thesis by (simp add: clean_key_after_last)
next
  case False
  then show ?thesis by (simp add: clean_key_unchanged)
qed

text \<open>
  C9. The key normalizer is idempotent; a key containing \<open>#\<close> is mapped to the text
  after its last \<open>#\<close> (the result has no \<open>#\<close> and \<open>x\<close> ends with \<open>#\<close> followed by
  the result), any other key is returned unchanged; the two keys of the specification
  are both mapped to \<open>Info\<close>.
\<close>

theorem clean_key_idempotent:
  "clean_key (clean_key x) = clean_key x
   \<and> (if CHR ''#'' \<in> set x
      then (\<exists>pre. x = pre @ CHR ''#'' # clean_key x) \<and> CHR ''#'' \<notin> set (clean_key x)
      else clean_key x = x)
   \<and> clean_key ''000#1#1#Info'' = ''Info''
   \<and> clean_key ''Info'' = ''Info''"
proof -
  have idem: "clean_key (clean_key x) = clean_key x"
    by (rule clean_key_unchanged) (rule clean_key_no_hash)
  have shape: "\<exists>pre. x = pre @ CHR ''#'' # clean_key x" if "CHR ''#'' \<in> set x"
  proof -
    from that obtain pre suf where x: "x = pre @ CHR ''#'' # suf" "CHR ''#'' \<notin> set suf"
      by (meson split_list_last)
    then have "clean_key x = suf" by (rule clean_key_after_last)
    with x have "x = pre @ CHR ''#'' # clean_key x" by simp
    then show ?thesis ..
  qed
  have ex1: "clean_key ''000#1#1#Info'' = ''Info''" by (simp add: clean_key_def)
  have ex2: "clean_key ''Info'' = ''Info''" by (simp add: clean_key_def)
  show ?thesis
    using idem shape clean_key_no_hash clean_key_unchanged ex1 ex2 by simp
qed

theorem clean_key_idempotent_witness:
  "clean_key (clean_key ''012#1#2#bus-ID'') = ''bus-ID''
   \<and> (\<exists>pre. ''012#1#2#bus-ID'' = pre @ CHR ''#'' # ''bus-ID'')
   \<and> clean_key ''Info'' = ''Info''"
proof -
  have v: "clean_key ''012#1#2#bus-ID'' = ''bus-ID''" by (simp add: clean_key_def)
  have h: "CHR ''#'' \<in> set ''012#1#2#bus-ID''" by simp
  show ?thesis using clean_key_idempotent [of "''012#1#2#bus-ID''"] h v by simp
qed

section \<open>The cross-section synthesizer deduplicates bus addresses\<close>

lemma bus_id_of_pci_entry [simp]: "bus_id_of (pci_entry c cd device b) = b"
  by (simp add: bus_id_of_def pci_entry_def dget_def)

lemma set_member_False: "set_member b seen = Inr False \<Longrightarrow> b \<notin> set seen"
  by (auto simp: set_member_def list_ex_iff split: if_splits)

lemma bindE_InrE:
  assumes "bindE m f = Inr y"
  obtains x where "m = Inr x" and "f x = Inr y"
  using assms by (cases m) auto

lemma pci_add_ok:
  assumes "pci_add c cd st device b = Inr st'" "b = bus_id_of device" "truthy b"
  shows "pci_step_ok c cd st device st'"
proof (cases "set_member b (snd st)")
  case (Inl e)
  with assms(1) show ?thesis by (simp add: pci_add_def)
next
  case (Inr seen)
  show ?thesis
  proof (cases seen)
    case True
    with Inr assms(1) show ?thesis by (simp add: pci_add_def pci_step_ok_def)
  next
    case False
    with Inr have "b \<notin> set (snd st)" by (simp add: set_member_False)
    with False Inr assms show ?thesis by (auto simp: pci_add_def pci_step_ok_def)
  qed
qed

lemma pci_gpu_step_ok:
  assumes "pci_gpu_step st device = Inr st'"
  shows "pci_step_ok ''Graphics'' ''0300'' st device st'"
proof -
  from assms obtain b where b: "val_get device ''bus_id'' (PStr '''') = Inr b"
    and r: "(if truthy b then pci_add ''Graphics'' ''0300'' st device b else Inr st) = Inr st'"
    unfolding pci_gpu_step_def by (rule bindE_InrE)
  from b have bb: "b = bus_id_of device" by (simp add: bus_id_of_def val_get_Inr)
  show ?thesis
  proof (cases "truthy b")
    case True
    with r bb show ?thesis by (auto intro: pci_add_ok)
  next
    case False
    with r show ?thesis by (simp add: pci_step_ok_def)
  qed
qed

lemma pci_bus_step_ok:
  assumes "pci_bus_step c cd st device = Inr st'"
  shows "pci_step_ok c cd st device st'"
proof -
  from assms obtain b where b: "val_get device ''bus_id'' (PStr '''') = Inr b"
    and r: "(if truthy b
             then bindE (in_val '':'' b) (\<lambda>colon.
                    if colon
                    then bindE (in_val ''-'' b) (\<lambda>dash.
                           if \<not> dash then pci_add c cd st device b else Inr st)
                    else Inr st)
             else Inr st) = Inr st'"
    unfolding pci_bus_step_def by (rule bindE_InrE)
  from b have bb: "b = bus_id_of device" by (simp add: bus_id_of_def val_get_Inr)
  show ?thesis
  proof (cases "st' = st")
    case True
    then show ?thesis by (simp add: pci_step_ok_def)
  next
    case False
    with r have "truthy b" and "pci_add c cd st device b = Inr st'"
      by (auto simp: bindE_eq_Inr split: if_splits)
    with bb show ?thesis by (auto intro: pci_add_ok)
  qed
qed

lemma pci_step_ok_inv: "pci_step_ok c cd st device st' \<Longrightarrow> pci_inv st \<Longrightarrow> pci_inv st'"
  by (auto simp: pci_step_ok_def pci_inv_def)

lemma pci_step_ok_seen:
  "pci_step_ok c cd st device st' \<Longrightarrow> x \<in> set (snd st) \<Longrightarrow>
     x \<in> set (snd st') \<and> filter (\<lambda>d. bus_id_of d = x) (fst st') = filter (\<lambda>d. bus_id_of d = x) (fst st)"
  by (auto simp: pci_step_ok_def)

text \<open>A loop keeps the invariant and never touches the entries of an address already seen.\<close>

lemma pci_loop:
  assumes "foldE step st devs = Inr st'"
    and "\<And>s d s'. step s d = Inr s' \<Longrightarrow> pci_step_ok c cd s d s'"
    and "pci_inv st"
  shows "pci_inv st' \<and>
         (\<forall>x \<in> set (snd st). x \<in> set (snd st') \<and>
            filter (\<lambda>d. bus_id_of d = x) (fst st') = filter (\<lambda>d. bus_id_of d = x) (fst st))"
  using assms(1,3)
proof (induction devs arbitrary: st)
  case Nil
  then show ?case by simp
next
  case (Cons d devs)
  from Cons.prems(1) obtain s1 where s1: "step st d = Inr s1" and rest: "foldE step s1 devs = Inr st'"
    by (auto split: sum.splits)
  from s1 have ok: "pci_step_ok c cd st d s1" by (rule assms(2))
  from ok Cons.prems(2) have inv1: "pci_inv s1" by (rule pci_step_ok_inv)
  from Cons.IH [OF rest inv1] pci_step_ok_seen [OF ok] show ?case by auto
qed

lemma py_eq_text [simp]: "py_eq (PStr s) x \<longleftrightarrow> x = PStr s"
  by (cases x) (auto simp: py_eq_def)

lemma set_member_text: "set_member (PStr s) seen = Inr (PStr s \<in> set seen)"
  by (auto simp: set_member_def list_ex_iff)

text \<open>The GPU loop enters the first device of every address it had not seen.\<close>

lemma pci_gpu_step_new:
  assumes "pci_gpu_step st d = Inr s1" and "bus_id_of d = PStr s" and "s \<noteq> []"
    and "PStr s \<notin> set (snd st)"
  shows "s1 = (fst st @ [pci_entry ''Graphics'' ''0300'' d (PStr s)], snd st @ [PStr s])"
proof -
  from assms(1) obtain b where b: "val_get d ''bus_id'' (PStr '''') = Inr b"
    and r: "(if truthy b then pci_add ''Graphics'' ''0300'' st d b else Inr st) = Inr s1"
    unfolding pci_gpu_step_def by (rule bindE_InrE)
  from val_get_Inr [OF b] assms(2) have "b = PStr s" by (simp add: bus_id_of_def)
  with r assms(3,4) show ?thesis by (simp add: pci_add_def set_member_text)
qed

lemma pci_gpu_loop_first:
  assumes "foldE pci_gpu_step st devs = Inr st'" and "pci_inv st"
    and "find (\<lambda>g. bus_id_of g = PStr s) devs = Some g" and "s \<noteq> []"
    and "PStr s \<notin> set (snd st)"
  shows "filter (\<lambda>d. bus_id_of d = PStr s) (fst st') = [pci_entry ''Graphics'' ''0300'' g (PStr s)]"
  using assms
proof (induction devs arbitrary: st)
  case Nil
  then show ?case by simp
next
  case (Cons d devs)
  from Cons.prems(1) obtain s1 where s1: "pci_gpu_step st d = Inr s1"
    and rest: "foldE pci_gpu_step s1 devs = Inr st'"
    by (auto split: sum.splits)
  from s1 have ok: "pci_step_ok ''Graphics'' ''0300'' st d s1" by (rule pci_gpu_step_ok)
  from ok Cons.prems(2) have inv1: "pci_inv s1" by (rule pci_step_ok_inv)
  have none: "filter (\<lambda>d. bus_id_of d = PStr s) (fst st) = []"
    using Cons.prems(2,5) by (force simp: pci_inv_def filter_empty_conv)
  show ?case
  proof (cases "bus_id_of d = PStr s")
    case True
    with Cons.prems(3) have g: "g = d" by simp
    from s1 True Cons.prems(4,5)
    have s1_eq: "s1 = (fst st @ [pci_entry ''Graphics'' ''0300'' d (PStr s)], snd st @ [PStr s])"
      by (rule pci_gpu_step_new)
    then have "PStr s \<in> set (snd s1)" by simp
    with pci_loop [OF rest pci_gpu_step_ok inv1]
    have "filter (\<lambda>d. bus_id_of d = PStr s) (fst st') = filter (\<lambda>d. bus_id_of d = PStr s) (fst s1)"
      by blast
    with s1_eq none g show ?thesis by simp
  next
    case False
    with Cons.prems(3) have f: "find (\<lambda>g. bus_id_of g = PStr s) devs = Some g" by simp
    from ok False Cons.prems(5) have "PStr s \<notin> set (snd s1)"
      by (auto simp: pci_step_ok_def)
    from Cons.IH [OF rest inv1 f Cons.prems(4) this] show ?thesis .
  qed
qed

lemma distinct_map_sort_key:
  "distinct (map f xs) \<Longrightarrow> distinct (map f (sort_key g xs))"
  by (metis distinct_map distinct_sort set_sort)

lemma sort_by_bus_id_distinct:
  assumes "sort_by_bus_id ds = Inr ds'" and "distinct (map bus_id_of ds)"
  shows "distinct (map bus_id_of ds')"
  using assms
  by (auto simp: sort_by_bus_id_def Let_def distinct_map_sort_key split: if_splits)

lemma sort_by_bus_id_single:
  assumes "sort_by_bus_id ds = Inr ds'" and "filter P ds = [x]"
  shows "filter P ds' = [x]"
  using assms
  by (auto simp: sort_by_bus_id_def Let_def filter_sort split: if_splits)

text \<open>
  C3. Whenever the synthesizer returns, the \<^verbatim>\<open>bus_id\<close> values of the entries of its
  device list are pairwise distinct; and when a non-empty bus address is carried by a
  device of \<^verbatim>\<open>gpu.devices\<close> and also by a device of \<^verbatim>\<open>audio.devices\<close> or of
  \<^verbatim>\<open>network.devices\<close>, the entries of the list with that address are exactly one:
  the Graphics entry built from the first GPU device that carries it.
\<close>

theorem extract_pci_devices_dedup:
  assumes "extract_pci_devices parsed_data = Inr r"
  shows "distinct (map bus_id_of (devices_of r))
       \<and> (\<forall>gpu_devices other s g.
            section_devices parsed_data ''gpu'' = Inr gpu_devices
            \<and> (section_devices parsed_data ''audio'' = Inr other
               \<or> section_devices parsed_data ''network'' = Inr other)
            \<and> s \<noteq> []
            \<and> find (\<lambda>g. bus_id_of g = PStr s) gpu_devices = Some g
            \<and> PStr s \<in> bus_id_of ` set other
            \<longrightarrow> filter (\<lambda>d. bus_id_of d = PStr s) (devices_of r)
                = [pci_entry ''Graphics'' ''0300'' g (PStr s)])"
proof -
  from assms obtain gs st1 as st2 ns st3 ds
    where gs: "section_devices parsed_data ''gpu'' = Inr gs"
      and l1: "foldE pci_gpu_step ([], []) gs = Inr st1"
      and as: "section_devices parsed_data ''audio'' = Inr as"
      and l2: "foldE (pci_bus_step ''Audio'' ''0403'') st1 as = Inr st2"
      and ns: "section_devices parsed_data ''network'' = Inr ns"
      and l3: "foldE (pci_bus_step ''Network'' ''0200'') st2 ns = Inr st3"
      and srt: "sort_by_bus_id (fst st3) = Inr ds"
      and r: "r = [(''devices'', PList ds), (''count'', PInt (int (length ds)))]"
    unfolding extract_pci_devices_def bindE_eq_Inr by blast
  have inv0: "pci_inv ([], [])" by (simp add: pci_inv_def)
  have p1: "pci_inv st1"
    using l1 pci_gpu_step_ok inv0 by (rule pci_loop [THEN conjunct1])
  have p2: "pci_inv st2 \<and> (\<forall>x \<in> set (snd st1). x \<in> set (snd st2) \<and>
              filter (\<lambda>d. bus_id_of d = x) (fst st2) = filter (\<lambda>d. bus_id_of d = x) (fst st1))"
    using l2 pci_bus_step_ok p1 by (rule pci_loop)
  have p3: "pci_inv st3 \<and> (\<forall>x \<in> set (snd st2). x \<in> set (snd st3) \<and>
              filter (\<lambda>d. bus_id_of d = x) (fst st3) = filter (\<lambda>d. bus_id_of d = x) (fst st2))"
    using l3 pci_bus_step_ok conjunct1 [OF p2] by (rule pci_loop)
  have ds: "devices_of r = ds" by (simp add: r devices_of_def dget_def)
  from conjunct1 [OF p3] have "distinct (map bus_id_of (fst st3))"
    unfolding pci_inv_def by metis
  with srt have d: "distinct (map bus_id_of ds)" by (rule sort_by_bus_id_distinct)
  have first: "filter (\<lambda>d. bus_id_of d = PStr s) ds = [pci_entry ''Graphics'' ''0300'' g (PStr s)]"
    if s: "s \<noteq> []" and g: "find (\<lambda>g. bus_id_of g = PStr s) gs = Some g" for s g
  proof -
    have f1: "filter (\<lambda>d. bus_id_of d = PStr s) (fst st1) = [pci_entry ''Graphics'' ''0300'' g (PStr s)]"
      using l1 inv0 g s by (rule pci_gpu_loop_first) simp
    from p1 f1 have in1: "PStr s \<in> set (snd st1)"
      by (auto simp: pci_inv_def filter_eq_Cons_iff)
    with p2 have in2: "PStr s \<in> set (snd st2)"
      and f2: "filter (\<lambda>d. bus_id_of d = PStr s) (fst st2) = filter (\<lambda>d. bus_id_of d = PStr s) (fst st1)"
      by blast+
    from in2 p3 have "filter (\<lambda>d. bus_id_of d = PStr s) (fst st3) = filter (\<lambda>d. bus_id_of d = PStr s) (fst st2)"
      by blast
    with f1 f2 have "filter (\<lambda>d. bus_id_of d = PStr s) (fst st3) = [pci_entry ''Graphics'' ''0300'' g (PStr s)]"
      by simp
    with srt show ?thesis by (rule sort_by_bus_id_single)
  qed
  from d first gs show ?thesis by (simp add: ds)
qed

theorem extract_pci_devices_dedup_witness:
  "extract_pci_devices pci_example
     = Inr [(''devices'', PList
              [pci_entry ''Audio'' ''0403''
                 (PDict [(''name'', PStr ''PCH''), (''bus_id'', PStr ''00:1f.3'')]) (PStr ''00:1f.3''),
               pci_entry ''Graphics'' ''0300''
                 (PDict [(''name'', PStr ''GPU''), (''bus_id'', PStr ''01:00.0'')]) (PStr ''01:00.0''),
               pci_entry ''Network'' ''0200''
                 (PDict [(''name'', PStr ''wifi''), (''bus_id'', PStr ''02:00.0'')]) (PStr ''02:00.0'')]),
            (''count'', PInt 3)]
   \<and> distinct [PStr ''00:1f.3'', PStr ''01:00.0'', PStr ''02:00.0'']
   \<and> filter (\<lambda>d. bus_id_of d = PStr ''01:00.0'')
        [pci_entry ''Audio'' ''0403''
           (PDict [(''name'', PStr ''PCH''), (''bus_id'', PStr ''00:1f.3'')]) (PStr ''00:1f.3''),
         pci_entry ''Graphics'' ''0300''
           (PDict [(''name'', PStr ''GPU''), (''bus_id'', PStr ''01:00.0'')]) (PStr ''01:00.0''),
         pci_entry ''Network'' ''0200''
           (PDict [(''name'', PStr ''wifi''), (''bus_id'', PStr ''02:00.0'')]) (PStr ''02:00.0'')]
      = [pci_entry ''Graphics'' ''0300''
           (PDict [(''name'', PStr ''GPU''), (''bus_id'', PStr ''01:00.0'')]) (PStr ''01:00.0'')]"
proof -
  have r: "extract_pci_devices pci_example
     = Inr [(''devices'', PList
              [pci_entry ''Audio'' ''0403''
                 (PDict [(''name'', PStr ''PCH''), (''bus_id'', PStr ''00:1f.3'')]) (PStr ''00:1f.3''),
               pci_entry ''Graphics'' ''0300''
                 (PDict [(''name'', PStr ''GPU''), (''bus_id'', PStr ''01:00.0'')]) (PStr ''01:00.0''),
               pci_entry ''Network'' ''0200''
                 (PDict [(''name'', PStr ''wifi''), (''bus_id'', PStr ''02:00.0'')]) (PStr ''02:00.0'')]),
            (''count'', PInt 3)]"
    by code_simp
  have gpu: "section_devices pci_example ''gpu''
               = Inr [PDict [(''name'', PStr ''GPU''), (''bus_id'', PStr ''01:00.0'')]]"
    by code_simp
  have audio: "section_devices pci_example ''audio''
               = Inr [PDict [(''name'', PStr ''HDMI''), (''bus_id'', PStr ''01:00.0'')],
                      PDict [(''name'', PStr ''PCH''), (''bus_id'', PStr ''00:1f.3'')],
                      PDict [(''name'', PStr ''USB Audio''), (''bus_id'', PStr ''1-2:3'')]]"
    by code_simp
  have fnd: "find (\<lambda>g. bus_id_of g = PStr ''01:00.0'')
               [PDict [(''name'', PStr ''GPU''), (''bus_id'', PStr ''01:00.0'')]]
             = Some (PDict [(''name'', PStr ''GPU''), (''bus_id'', PStr ''01:00.0'')])"
    by (simp add: bus_id_of_def dget_def)
  have mem: "PStr ''01:00.0'' \<in> bus_id_of `
               set [PDict [(''name'', PStr ''HDMI''), (''bus_id'', PStr ''01:00.0'')],
                    PDict [(''name'', PStr ''PCH''), (''bus_id'', PStr ''00:1f.3'')],
                    PDict [(''name'', PStr ''USB Audio''), (''bus_id'', PStr ''1-2:3'')]]"
    by (simp add: bus_id_of_def dget_def)
  have ne: "''01:00.0'' \<noteq> []" by simp
  from extract_pci_devices_dedup [OF r] gpu audio fnd mem ne
  have "distinct (map bus_id_of (devices_of [(''devices'', PList
              [pci_entry ''Audio'' ''0403''
                 (PDict [(''name'', PStr ''PCH''), (''bus_id'', PStr ''00:1f.3'')]) (PStr ''00:1f.3''),
               pci_entry ''Graphics'' ''0300''
                 (PDict [(''name'', PStr ''GPU''), (''bus_id'', PStr ''01:00.0'')]) (PStr ''01:00.0''),
               pci_entry ''Network'' ''0200''
                 (PDict [(''name'', PStr ''wifi''), (''bus_id'', PStr ''02:00.0'')]) (PStr ''02:00.0'')]),
            (''count'', PInt 3)]))"
    and "filter (\<lambda>d. bus_id_of d = PStr ''01:00.0'') (devices_of [(''devices'', PList
              [pci_entry ''Audio'' ''0403''
                 (PDict [(''name'', PStr ''PCH''), (''bus_id'', PStr ''00:1f.3'')]) (PStr ''00:1f.3''),
               pci_entry ''Graphics'' ''0300''
                 (PDict [(''name'', PStr ''GPU''), (''bus_id'', PStr ''01:00.0'')]) (PStr ''01:00.0''),
               pci_entry ''Network'' ''0200''
                 (PDict [(''name'', PStr ''wifi''), (''bus_id'', PStr ''02:00.0'')]) (PStr ''02:00.0'')]),
            (''count'', PInt 3)])
         = [pci_entry ''Graphics'' ''0300''
           (PDict [(''name'', PStr ''GPU''), (''bus_id'', PStr ''01:00.0'')]) (PStr ''01:00.0'')]"
    by blast+
  with r show ?thesis by (simp add: devices_of_def dget_def)
qed

section \<open>Webcams and GPUs in the Graphics section\<close>

lemma gpu_loop_cleaned:
  "map clean_item its = map Inr cs \<Longrightarrow> foldE gpu_item r its = foldE gpu_cleaned r cs"
proof (induction its arbitrary: cs r)
  case Nil
  then show ?case by simp
next
  case (Cons item its)
  then obtain c cs' where cs: "cs = c # cs'" and c: "clean_item item = Inr c"
    and rest: "map clean_item its = map Inr cs'"
    by (cases cs) auto
  have "gpu_item r item = gpu_cleaned r c" by (simp add: gpu_item_def c)
  with Cons.IH [OF rest] show ?case by (simp add: cs split: sum.splits)
qed

lemma gpu_cleaned_lists:
  assumes "names_text c"
  shows "\<exists>r'. gpu_cleaned r c = Inr r'
     \<and> (\<forall>d. dget r' ''webcams'' d =
            (if webcam_only c
             then PList (list_items (dget r ''webcams'' (PList [])) @ [webcam_entry c])
             else dget r ''webcams'' d))
     \<and> (\<forall>d. dget r' ''devices'' d =
            (if gpu_like c
             then PList (list_items (dget r ''devices'' (PList [])) @ [gpu_entry c])
             else dget r ''devices'' d))"
proof (cases "dhas c ''Device''")
  case True
  with assms obtain name driver where "getd c ''Device'' = PStr name" "getd c ''driver'' = PStr driver"
    by (cases "getd c ''Device''"; cases "getd c ''driver''") (auto simp: names_text_def)
  with True show ?thesis
    by (auto simp: gpu_cleaned_def gpu_device_def webcam_only_def gpu_like_def device_name_def
        driver_name_def dget_dappend)
next
  case False
  then show ?thesis
    by (simp add: gpu_cleaned_def webcam_only_def gpu_like_def dget_dappend dget_dset)
qed

lemma gpu_loop_lists:
  assumes "list_all names_text cs"
    and "\<And>d. dget r ''webcams'' d = PList ws" and "\<And>d. dget r ''devices'' d = PList ds"
  shows "\<exists>r'. foldE gpu_cleaned r cs = Inr r'
     \<and> (\<forall>d. dget r' ''webcams'' d = PList (ws @ map webcam_entry (filter webcam_only cs)))
     \<and> (\<forall>d. dget r' ''devices'' d = PList (ds @ map gpu_entry (filter gpu_like cs)))"
  using assms
proof (induction cs arbitrary: r ws ds)
  case Nil
  then show ?case by simp
next
  case (Cons c cs)
  from Cons.prems(1) have c: "names_text c" and rest: "list_all names_text cs" by simp_all
  from gpu_cleaned_lists [OF c, of r] obtain r1 where r1: "gpu_cleaned r c = Inr r1"
    and w1: "\<And>d. dget r1 ''webcams'' d =
            (if webcam_only c
             then PList (list_items (dget r ''webcams'' (PList [])) @ [webcam_entry c])
             else dget r ''webcams'' d)"
    and d1: "\<And>d. dget r1 ''devices'' d =
            (if gpu_like c
             then PList (list_items (dget r ''devices'' (PList [])) @ [gpu_entry c])
             else dget r ''devices'' d)"
    by blast
  have w: "dget r1 ''webcams'' d = PList (ws @ map webcam_entry (filter webcam_only [c]))" for d
    by (simp add: w1 Cons.prems(2))
  have d: "dget r1 ''devices'' d = PList (ds @ map gpu_entry (filter gpu_like [c]))" for d
    by (simp add: d1 Cons.prems(3))
  from Cons.IH [OF rest w d] r1 show ?case
    by (cases "webcam_only c"; cases "gpu_like c"; simp)
qed

text \<open>
  C6. In the GPU parser, for a section whose items are mappings in which the name (and
  the driver, when there is one) of every item with a \<^verbatim>\<open>Device\<close> key is text, the
  parser returns, its \<^verbatim>\<open>webcams\<close> are exactly the entries of the items with a
  \<^verbatim>\<open>Device\<close> key that match the webcam keywords (by lower-case name, or a driver
  containing \<open>uvcvideo\<close>) and not the GPU keywords (by name or by driver), and its
  \<^verbatim>\<open>devices\<close> are exactly the entries of all other items with a \<^verbatim>\<open>Device\<close> key,
  those that match both keyword lists included, each list in the order of the section.
  A section with the item \<open>Device = Integrated Webcam, driver = uvcvideo\<close> has that
  webcam and no device; a section with \<open>Device = NVIDIA GeForce RTX 3080\<close> has that
  device and no webcam.
\<close>

theorem gpu_webcam_classification:
  assumes "map clean_item its = map Inr cs" and "list_all names_text cs"
  shows "(\<exists>r. parse_gpu_section (PList its) = Inr r
            \<and> dget r ''webcams'' PNone = PList (map webcam_entry (filter webcam_only cs))
            \<and> dget r ''devices'' PNone = PList (map gpu_entry (filter gpu_like cs)))
       \<and> parse_gpu_section (PList [webcam_item])
           = Inr (dappend gpu_defaults ''webcams''
                    (webcam_entry [(''Device'', PStr ''Integrated Webcam''),
                                   (''driver'', PStr ''uvcvideo'')]))
       \<and> parse_gpu_section (PList [nvidia_item])
           = Inr (dappend gpu_defaults ''devices''
                    (gpu_entry [(''Device'', PStr ''NVIDIA GeForce RTX 3080'')]))"
proof -
  have w0: "dget gpu_defaults ''webcams'' d = PList []" for d
    by (simp add: gpu_defaults_def dget_def)
  have d0: "dget gpu_defaults ''devices'' d = PList []" for d
    by (simp add: gpu_defaults_def dget_def)
  from gpu_loop_lists [OF assms(2) w0 d0]
  have general: "\<exists>r. parse_gpu_section (PList its) = Inr r
            \<and> dget r ''webcams'' PNone = PList (map webcam_entry (filter webcam_only cs))
            \<and> dget r ''devices'' PNone = PList (map gpu_entry (filter gpu_like cs))"
    by (auto simp: parse_gpu_section_def for_items_def gpu_loop_cleaned [OF assms(1)])
  have webcam: "parse_gpu_section (PList [webcam_item])
           = Inr (dappend gpu_defaults ''webcams''
                    (webcam_entry [(''Device'', PStr ''Integrated Webcam''),
                                   (''driver'', PStr ''uvcvideo'')]))"
    by code_simp
  have nvidia: "parse_gpu_section (PList [nvidia_item])
           = Inr (dappend gpu_defaults ''devices''
                    (gpu_entry [(''Device'', PStr ''NVIDIA GeForce RTX 3080'')]))"
    by code_simp
  from general webcam nvidia show ?thesis by simp
qed

text \<open>
  A section of four items: the webcam goes to \<^verbatim>\<open>webcams\<close>, the display to neither
  list, and the GPU and the device that matches both keyword lists go to
  \<^verbatim>\<open>devices\<close>, in this order.
\<close>

theorem gpu_webcam_classification_witness:
  "\<exists>r. parse_gpu_section (PList graphics_example) = Inr r
      \<and> dget r ''webcams'' PNone
          = PList [webcam_entry [(''Device'', PStr ''Integrated Webcam''), (''driver'', PStr ''uvcvideo'')]]
      \<and> dget r ''devices'' PNone
          = PList [gpu_entry [(''Device'', PStr ''NVIDIA GeForce RTX 3080'')],
                   gpu_entry [(''Device'', PStr ''AMD Camera Hub''), (''driver'', PStr ''uvcvideo'')]]"
proof -
  have cl: "map clean_item graphics_example
      = map Inr
         [[(''Device'', PStr ''Integrated Webcam''), (''driver'', PStr ''uvcvideo'')],
          [(''Display'', PStr ''x11''), (''server'', PStr ''X.Org'')],
          [(''Device'', PStr ''NVIDIA GeForce RTX 3080'')],
          [(''Device'', PStr ''AMD Camera Hub''), (''driver'', PStr ''uvcvideo'')]]"
    by code_simp
  have nt: "list_all names_text
         [[(''Device'', PStr ''Integrated Webcam''), (''driver'', PStr ''uvcvideo'')],
          [(''Display'', PStr ''x11''), (''server'', PStr ''X.Org'')],
          [(''Device'', PStr ''NVIDIA GeForce RTX 3080'')],
          [(''Device'', PStr ''AMD Camera Hub''), (''driver'', PStr ''uvcvideo'')]]"
    by code_simp
  have w: "filter webcam_only
         [[(''Device'', PStr ''Integrated Webcam''), (''driver'', PStr ''uvcvideo'')],
          [(''Display'', PStr ''x11''), (''server'', PStr ''X.Org'')],
          [(''Device'', PStr ''NVIDIA GeForce RTX 3080'')],
          [(''Device'', PStr ''AMD Camera Hub''), (''driver'', PStr ''uvcvideo'')]]
      = [[(''Device'', PStr ''Integrated Webcam''), (''driver'', PStr ''uvcvideo'')]]"
    by code_simp
  have g: "filter gpu_like
         [[(''Device'', PStr ''Integrated Webcam''), (''driver'', PStr ''uvcvideo'')],
          [(''Display'', PStr ''x11''), (''server'', PStr ''X.Org'')],
          [(''Device'', PStr ''NVIDIA GeForce RTX 3080'')],
          [(''Device'', PStr ''AMD Camera Hub''), (''driver'', PStr ''uvcvideo'')]]
      = [[(''Device'', PStr ''NVIDIA GeForce RTX 3080'')],
         [(''Device'', PStr ''AMD Camera Hub''), (''driver'', PStr ''uvcvideo'')]]"
    by code_simp
  from gpu_webcam_classification [OF cl nt] show ?thesis
    unfolding w g by simp
qed

section \<open>The thread and core fallbacks of the CPU parser\<close>

lemma dget_cpu_basic:
  "k \<in> {''threads'', ''cores'', ''core_speeds''} \<Longrightarrow> dget (cpu_basic cleaned r) k d = dget r k d"
  unfolding cpu_basic_def by (rule dget_copy_fields_other) auto

lemma dget_cpu_info:
  assumes "cpu_info cleaned r = Inr r'"
  shows "dget r' k d =
           (if k = ''cores'' then (case mined_cores cleaned of Some n \<Rightarrow> PInt n | None \<Rightarrow> dget r k d)
            else dget r k d)"
proof (cases "truthy (getd cleaned ''Info'')")
  case False
  with assms show ?thesis by (simp add: cpu_info_def mined_cores_def Let_def)
next
  case True
  with assms obtain low where low: "val_lower (getd cleaned ''Info'') = Inr low"
    and r': "r' = (case info_cores low of Some n \<Rightarrow> dset r ''cores'' (PInt n) | None \<Rightarrow> r)"
    by (auto simp: cpu_info_def Let_def bindE_eq_Inr)
  from low obtain s where s: "getd cleaned ''Info'' = PStr s" and l: "low = py_lower s"
    by (cases "getd cleaned ''Info''") auto
  with True r' show ?thesis
    by (auto simp: mined_cores_def dget_dset split: option.splits)
qed

lemma dget_set_reported_int:
  "dget (set_reported_int cleaned x r) k d =
     (if k = x then (case reported_int cleaned x of Some i \<Rightarrow> PInt i | None \<Rightarrow> dget r k d)
      else dget r k d)"
  by (auto simp: set_reported_int_def dget_dset split: option.splits)

lemma dget_cpu_core_speeds:
  "k \<noteq> ''core_speeds'' \<Longrightarrow> dget (cpu_core_speeds cleaned r) k d = dget r k d"
  unfolding cpu_core_speeds_def
  by (induction cleaned arbitrary: r) (auto simp: cpu_core_speed_def dget_dset)

lemma dget_cpu_minmax:
  "k \<notin> {''speed_min'', ''speed_max''} \<Longrightarrow> dget (cpu_minmax repr cleaned r) k d = dget r k d"
  by (auto simp: cpu_minmax_def dget_dset split: option.splits list.splits sum.splits)

lemma dget_cpu_speed:
  "k \<in> {''threads'', ''cores'', ''core_speeds''} \<Longrightarrow> dget (cpu_speed repr cleaned r) k d = dget r k d"
  unfolding cpu_speed_def
  by (subst dget_copy_fields_other) (auto simp: dget_cpu_minmax dget_copy_field)

lemma dget_cpu_flags:
  "k \<noteq> ''flags'' \<Longrightarrow> dget (cpu_flags cleaned r) k d = dget r k d"
  by (simp add: cpu_flags_def dget_copy_field)

lemma dget_cpu_vulnerability:
  "k \<noteq> ''vulnerabilities'' \<Longrightarrow> dget (cpu_vulnerability cleaned r) k d = dget r k d"
  by (simp add: cpu_vulnerability_def dget_dappend split: option.splits)

lemma cpu_item_threads:
  assumes "cpu_item repr r item = Inr r'" and "clean_item item = Inr cleaned"
  shows "dget r' ''threads'' d =
           (case reported_int cleaned ''threads'' of Some i \<Rightarrow> PInt i | None \<Rightarrow> dget r ''threads'' d)"
proof -
  from assms obtain r1 where r1: "cpu_info cleaned (cpu_basic cleaned r) = Inr r1"
    and r': "r' = cpu_vulnerability cleaned (cpu_flags cleaned (cpu_speed repr cleaned
                    (cpu_core_speeds cleaned (cpu_topology cleaned r1))))"
    by (auto simp: cpu_item_def cpu_cleaned_def cpu_rest_def bindE_eq_Inr)
  show ?thesis
    by (simp add: r' dget_cpu_vulnerability dget_cpu_flags dget_cpu_speed dget_cpu_core_speeds
        cpu_topology_def dget_set_reported_int dget_cpu_info [OF r1] dget_cpu_basic
        split: option.splits)
qed

lemma cpu_item_cores:
  assumes "cpu_item repr r item = Inr r'" and "clean_item item = Inr cleaned"
  shows "dget r' ''cores'' d =
           (case reported_int cleaned ''cores'' of
              Some i \<Rightarrow> PInt i
            | None \<Rightarrow> (case mined_cores cleaned of Some n \<Rightarrow> PInt n | None \<Rightarrow> dget r ''cores'' d))"
proof -
  from assms obtain r1 where r1: "cpu_info cleaned (cpu_basic cleaned r) = Inr r1"
    and r': "r' = cpu_vulnerability cleaned (cpu_flags cleaned (cpu_speed repr cleaned
                    (cpu_core_speeds cleaned (cpu_topology cleaned r1))))"
    by (auto simp: cpu_item_def cpu_cleaned_def cpu_rest_def bindE_eq_Inr)
  show ?thesis
    by (simp add: r' dget_cpu_vulnerability dget_cpu_flags dget_cpu_speed dget_cpu_core_speeds
        cpu_topology_def dget_set_reported_int dget_cpu_info [OF r1] dget_cpu_basic
        split: option.splits)
qed

lemma cpu_item_cleans:
  assumes "cpu_item repr r item = Inr r'"
  obtains cleaned where "clean_item item = Inr cleaned"
  using assms by (auto simp: cpu_item_def cpu_cleaned_def cpu_rest_def bindE_eq_Inr)

lemma cpu_loop_threads:
  assumes "foldE (cpu_item repr) r its = Inr r'"
    and "\<forall>item \<in> set its. \<forall>cleaned. clean_item item = Inr cleaned \<longrightarrow> reported_int cleaned ''threads'' = None"
  shows "dget r' ''threads'' d = dget r ''threads'' d"
  using assms
proof (induction its arbitrary: r)
  case Nil
  then show ?case by simp
next
  case (Cons item its)
  from Cons.prems(1) obtain r1 where r1: "cpu_item repr r item = Inr r1"
    and rest: "foldE (cpu_item repr) r1 its = Inr r'"
    by (auto split: sum.splits)
  from r1 obtain cleaned where c: "clean_item item = Inr cleaned" by (rule cpu_item_cleans)
  with Cons.prems(2) have "reported_int cleaned ''threads'' = None" by simp
  with cpu_item_threads [OF r1 c] have "dget r1 ''threads'' d = dget r ''threads'' d" by simp
  with Cons.IH [OF rest] Cons.prems(2) show ?case by simp
qed

lemma cpu_loop_cores:
  assumes "foldE (cpu_item repr) r its = Inr r'"
    and "\<forall>item \<in> set its. \<forall>cleaned. clean_item item = Inr cleaned \<longrightarrow>
           reported_int cleaned ''cores'' = None \<and> mined_cores cleaned = None"
  shows "dget r' ''cores'' d = dget r ''cores'' d"
  using assms
proof (induction its arbitrary: r)
  case Nil
  then show ?case by simp
next
  case (Cons item its)
  from Cons.prems(1) obtain r1 where r1: "cpu_item repr r item = Inr r1"
    and rest: "foldE (cpu_item repr) r1 its = Inr r'"
    by (auto split: sum.splits)
  from r1 obtain cleaned where c: "clean_item item = Inr cleaned" by (rule cpu_item_cleans)
  with Cons.prems(2) have "reported_int cleaned ''cores'' = None \<and> mined_cores cleaned = None" by simp
  with cpu_item_cores [OF r1 c] have "dget r1 ''cores'' d = dget r ''cores'' d" by simp
  with Cons.IH [OF rest] Cons.prems(2) show ?case by simp
qed

lemma core_speeds_of_dset: "k \<noteq> ''core_speeds'' \<Longrightarrow> core_speeds_of (dset r k v) = core_speeds_of r"
  by (simp add: core_speeds_of_def dget_dset)

lemma cpu_fallbacks:
  assumes "\<And>d. dget res ''threads'' d = PInt 0"
  shows "dget (cpu_cores_fallback (cpu_threads_fallback res)) ''threads'' d
           = PInt (int (length (core_speeds_of res)))"
    and "core_speeds_of (cpu_cores_fallback (cpu_threads_fallback res)) = core_speeds_of res"
    and "(\<And>d. dget res ''cores'' d = PInt 0) \<Longrightarrow>
         dget (cpu_cores_fallback (cpu_threads_fallback res)) ''cores'' d
           = PInt (if int (length (core_speeds_of res)) div 2 \<noteq> 0
                   then int (length (core_speeds_of res)) div 2
                   else int (length (core_speeds_of res)))"
  using assms
  by (auto simp: cpu_cores_fallback_def cpu_threads_fallback_def int_field_def Let_def dget_dset
      core_speeds_of_dset)

text \<open>
  C7. When the CPU parser returns and no item of the section reports a \<^verbatim>\<open>threads\<close>
  field that \<^verbatim>\<open>int\<close> accepts, \<^verbatim>\<open>threads\<close> is the number of entries of
  \<^verbatim>\<open>core_speeds\<close>; when moreover no item reports such a \<^verbatim>\<open>cores\<close> field and no
  \<^verbatim>\<open>Info\<close> text names a core count, \<^verbatim>\<open>cores\<close> is \<open>threads // 2\<close>, or \<open>threads\<close>
  when that is zero. A section with four per-thread speeds and no \<^verbatim>\<open>threads\<close> or
  \<^verbatim>\<open>cores\<close> field gives \<open>threads = 4\<close> and \<open>cores = 2\<close>.
\<close>

theorem cpu_threads_cores_fallback:
  assumes "parse_cpu_section e items = Inr r" and "py_iter items = Inr its"
    and "\<forall>item \<in> set its. \<forall>cleaned. clean_item item = Inr cleaned \<longrightarrow>
           reported_int cleaned ''threads'' = None"
  shows "dget r ''threads'' PNone = PInt (int (length (core_speeds_of r)))
       \<and> ((\<forall>item \<in> set its. \<forall>cleaned. clean_item item = Inr cleaned \<longrightarrow>
              reported_int cleaned ''cores'' = None \<and> mined_cores cleaned = None)
          \<longrightarrow> dget r ''cores'' PNone
                = PInt (if int (length (core_speeds_of r)) div 2 \<noteq> 0
                        then int (length (core_speeds_of r)) div 2
                        else int (length (core_speeds_of r))))
       \<and> (\<exists>r4. parse_cpu_section e cpu_example = Inr r4
               \<and> length (core_speeds_of r4) = 4
               \<and> dget r4 ''threads'' PNone = PInt 4 \<and> dget r4 ''cores'' PNone = PInt 2)"
proof -
  from assms(1,2) obtain res where loop: "foldE (cpu_item (repr_ext e)) cpu_defaults its = Inr res"
    and r: "r = cpu_cores_fallback (cpu_threads_fallback res)"
    by (auto simp: parse_cpu_section_def for_items_def bindE_eq_Inr)
  have t0: "dget res ''threads'' d = PInt 0" for d
    using cpu_loop_threads [OF loop assms(3)] by (simp add: cpu_defaults_def dget_def)
  have threads: "dget r ''threads'' PNone = PInt (int (length (core_speeds_of r)))"
    by (simp add: r cpu_fallbacks [OF t0])
  have cores: "dget r ''cores'' PNone
                = PInt (if int (length (core_speeds_of r)) div 2 \<noteq> 0
                        then int (length (core_speeds_of r)) div 2
                        else int (length (core_speeds_of r)))"
    if h: "\<forall>item \<in> set its. \<forall>cleaned. clean_item item = Inr cleaned \<longrightarrow>
              reported_int cleaned ''cores'' = None \<and> mined_cores cleaned = None"
  proof -
    have c0: "dget res ''cores'' d = PInt 0" for d
      using cpu_loop_cores [OF loop h] by (simp add: cpu_defaults_def dget_def)
    show ?thesis
      unfolding r by (simp only: cpu_fallbacks(3) [OF t0 c0] cpu_fallbacks(2) [OF t0])
  qed
  have four: "\<exists>r4. parse_cpu_section e cpu_example = Inr r4
               \<and> length (core_speeds_of r4) = 4
               \<and> dget r4 ''threads'' PNone = PInt 4 \<and> dget r4 ''cores'' PNone = PInt 2"
  proof -
    have "case parse_cpu_section e cpu_example of
            Inl x \<Rightarrow> False
          | Inr r4 \<Rightarrow> length (core_speeds_of r4) = 4
               \<and> dget r4 ''threads'' PNone = PInt 4 \<and> dget r4 ''cores'' PNone = PInt 2"
      by code_simp
    then show ?thesis by (auto split: sum.splits)
  qed
  from threads cores four show ?thesis by blast
qed

theorem cpu_threads_cores_fallback_witness:
  "\<exists>r. parse_cpu_section quiet_env cpu_example = Inr r
      \<and> dget r ''threads'' PNone = PInt (int (length (core_speeds_of r)))
      \<and> dget r ''cores'' PNone
          = PInt (if int (length (core_speeds_of r)) div 2 \<noteq> 0
                  then int (length (core_speeds_of r)) div 2
                  else int (length (core_speeds_of r)))
      \<and> length (core_speeds_of r) = 4"
proof -
  have "case parse_cpu_section quiet_env cpu_example of
          Inl x \<Rightarrow> False | Inr r \<Rightarrow> length (core_speeds_of r) = 4"
    by code_simp
  then obtain r where r: "parse_cpu_section quiet_env cpu_example = Inr r"
    and four: "length (core_speeds_of r) = 4"
    by (auto split: sum.splits)
  have it: "py_iter cpu_example
              = Inr [PDict [(''001#0#2#0'', PInt 2400), (''002#0#2#1'', PInt 2400),
                            (''003#0#2#2'', PInt 2400), (''004#0#2#3'', PInt 2400)]]"
    by (simp add: cpu_example_def)
  have c: "clean_item (PDict [(''001#0#2#0'', PInt 2400), (''002#0#2#1'', PInt 2400),
                              (''003#0#2#2'', PInt 2400), (''004#0#2#3'', PInt 2400)])
             = Inr [(''0'', PInt 2400), (''1'', PInt 2400), (''2'', PInt 2400), (''3'', PInt 2400)]"
    by code_simp
  have t: "reported_int [(''0'', PInt 2400), (''1'', PInt 2400), (''2'', PInt 2400),
                         (''3'', PInt 2400)] ''threads'' = None"
    by code_simp
  have k: "reported_int [(''0'', PInt 2400), (''1'', PInt 2400), (''2'', PInt 2400),
                         (''3'', PInt 2400)] ''cores'' = None"
    by code_simp
  have m: "mined_cores [(''0'', PInt 2400), (''1'', PInt 2400), (''2'', PInt 2400),
                        (''3'', PInt 2400)] = None"
    by code_simp
  from c t have h1: "\<forall>item \<in> set [PDict [(''001#0#2#0'', PInt 2400), (''002#0#2#1'', PInt 2400),
                            (''003#0#2#2'', PInt 2400), (''004#0#2#3'', PInt 2400)]].
                       \<forall>cleaned. clean_item item = Inr cleaned \<longrightarrow>
                         reported_int cleaned ''threads'' = None"
    by simp
  from c k m have h2: "\<forall>item \<in> set [PDict [(''001#0#2#0'', PInt 2400), (''002#0#2#1'', PInt 2400),
                            (''003#0#2#2'', PInt 2400), (''004#0#2#3'', PInt 2400)]].
                       \<forall>cleaned. clean_item item = Inr cleaned \<longrightarrow>
                         reported_int cleaned ''cores'' = None \<and> mined_cores cleaned = None"
    by simp
  from cpu_threads_cores_fallback [OF r it h1] h2 r four show ?thesis by blast
qed

section \<open>The summary and the modules of the Memory section\<close>

lemma memory_loop:
  "map clean_item its = map Inr cs \<Longrightarrow>
     foldE (memory_item repr) r its = Inr (fold (memory_fields repr) cs r)"
proof (induction its arbitrary: cs r)
  case Nil
  then show ?case by simp
next
  case (Cons item its)
  then obtain c cs' where cs: "cs = c # cs'" and c: "clean_item item = Inr c"
    and rest: "map clean_item its = map Inr cs'"
    by (cases cs) auto
  from Cons.IH [OF rest] c show ?case
    by (simp add: cs memory_item_def memory_cleaned_def)
qed

lemma getd_dappend_other: "k' \<noteq> k \<Longrightarrow> getd (dappend d k x) k' = getd d k'"
  by (simp add: getd_def dget_dappend)

lemma dget_copy_str_once_other:
  "x \<noteq> k \<Longrightarrow> dget (copy_str_once repr cleaned k r) x d = dget r x d"
  by (simp add: copy_str_once_def dget_copy_str)

lemma dget_memory_extra:
  "x \<in> {''total'', ''modules'', ''used_percent''} \<Longrightarrow> dget (memory_extra repr cleaned r) x d = dget r x d"
  by (auto simp: memory_extra_def dget_copy_str)

lemma dget_memory_total_other:
  "x \<noteq> ''total'' \<Longrightarrow> dget (memory_total repr cleaned r) x d = dget r x d"
  by (simp add: memory_total_def dget_dset)

lemma total_memory_fields:
  "getd (memory_fields repr c r) ''total'' =
     (if \<not> truthy (getd r ''total'') \<and> is_ram_summary c \<and> names_gib (total_text repr c)
      then PStr (total_text repr c) else getd r ''total'')"
  by (simp add: memory_fields_def memory_module_def getd_def dget_dappend dget_memory_extra
      dget_copy_str_once_other memory_total_def dget_dset)

lemma modules_memory_fields:
  "dget (memory_fields repr c r) ''modules'' d =
     (if is_module repr c
      then PList (list_items (dget r ''modules'' (PList [])) @ [module_entry repr c])
      else dget r ''modules'' d)"
  by (simp add: memory_fields_def memory_module_def dget_dappend dget_memory_extra
      dget_copy_str_once_other dget_memory_total_other)

lemma names_gib_nonempty: "names_gib s \<Longrightarrow> s \<noteq> []"
  by (auto simp: names_gib_def)

lemma total_memory_loop:
  "getd (fold (memory_fields repr) cs r) ''total'' =
     (if truthy (getd r ''total'') then getd r ''total''
      else (case find (\<lambda>c. is_ram_summary c \<and> names_gib (total_text repr c)) cs of
              Some c \<Rightarrow> PStr (total_text repr c)
            | None \<Rightarrow> getd r ''total''))"
proof (induction cs arbitrary: r)
  case Nil
  show ?case by simp
next
  case (Cons c cs)
  show ?case
    by (simp add: Cons.IH total_memory_fields names_gib_nonempty split: option.splits)
qed

lemma modules_memory_loop:
  "(\<And>d. dget r ''modules'' d = PList ms) \<Longrightarrow>
   dget (fold (memory_fields repr) cs r) ''modules'' d =
     PList (ms @ map (module_entry repr) (filter (is_module repr) cs))"
proof (induction cs arbitrary: r ms)
  case Nil
  then show ?case by simp
next
  case (Cons c cs)
  show ?case
  proof (cases "is_module repr c")
    case True
    with Cons.prems
    have "dget (memory_fields repr c r) ''modules'' d = PList (ms @ [module_entry repr c])" for d
      by (simp add: modules_memory_fields)
    from Cons.IH [OF this] True show ?thesis by simp
  next
    case False
    with Cons.prems have "dget (memory_fields repr c r) ''modules'' d = PList ms" for d
      by (simp add: modules_memory_fields)
    from Cons.IH [OF this] False show ?thesis by simp
  qed
qed

lemma dget_memory_used_percent_other:
  "x \<noteq> ''used_percent'' \<Longrightarrow> dget (memory_used_percent r) x d = dget r x d"
  by (auto simp: memory_used_percent_def dget_dset split: option.splits sum.splits)

text \<open>
  C8, as the claim states it, fails: an item with a \<^verbatim>\<open>total\<close> field and no \<^verbatim>\<open>Device\<close>
  key whose total is given in MiB leaves the record's \<^verbatim>\<open>total\<close> empty.
\<close>

theorem memory_total_counterexample:
  "clean_item mib_item = Inr [(''total'', PStr ''512 MiB'')]
   \<and> is_ram_summary [(''total'', PStr ''512 MiB'')]
   \<and> parse_memory_section quiet_env (PList [mib_item]) = Inr memory_defaults
   \<and> getd memory_defaults ''total'' = PStr ''''
   \<and> getd memory_defaults ''total'' \<noteq> PStr ''512 MiB''"
  by code_simp

text \<open>
  C8, amended. For every Memory section whose items are dictionaries, the parser returns;
  the record's \<^verbatim>\<open>total\<close> is the total text of the first item that carries a
  \<^verbatim>\<open>total\<close> field, no \<^verbatim>\<open>Device\<close> key, and whose total text contains \<open>GiB\<close> or
  \<open>GB\<close> (the empty string when there is none); and \<^verbatim>\<open>modules\<close> lists, in order, the
  entries of exactly the items that carry both \<^verbatim>\<open>Device\<close> and \<^verbatim>\<open>size\<close> with a size
  that is truthy and whose text does not contain \<open>No Module\<close>.
\<close>

theorem memory_summary_and_modules:
  assumes "py_iter items = Inr its" and "map clean_item its = map Inr cs"
  shows "\<exists>r. parse_memory_section e items = Inr r
      \<and> getd r ''total''
          = (case find (\<lambda>c. is_ram_summary c \<and> names_gib (total_text (repr_ext e) c)) cs of
               Some c \<Rightarrow> PStr (total_text (repr_ext e) c)
             | None \<Rightarrow> PStr '''')
      \<and> dget r ''modules'' PNone
          = PList (map (module_entry (repr_ext e)) (filter (is_module (repr_ext e)) cs))"
proof -
  let ?res = "fold (memory_fields (repr_ext e)) cs memory_defaults"
  have ret: "parse_memory_section e items = Inr (memory_used_percent ?res)"
    using assms(1) memory_loop [OF assms(2)]
    by (simp add: parse_memory_section_def for_items_def)
  have t0: "getd memory_defaults ''total'' = PStr ''''"
    by (simp add: memory_defaults_def getd_def dget_def)
  have "getd ?res ''total''
          = (case find (\<lambda>c. is_ram_summary c \<and> names_gib (total_text (repr_ext e) c)) cs of
               Some c \<Rightarrow> PStr (total_text (repr_ext e) c)
             | None \<Rightarrow> PStr '''')"
    by (simp add: total_memory_loop t0 split: option.splits)
  then have total: "getd (memory_used_percent ?res) ''total''
          = (case find (\<lambda>c. is_ram_summary c \<and> names_gib (total_text (repr_ext e) c)) cs of
               Some c \<Rightarrow> PStr (total_text (repr_ext e) c)
             | None \<Rightarrow> PStr '''')"
    by (simp add: getd_def dget_memory_used_percent_other)
  have m0: "dget memory_defaults ''modules'' d = PList []" for d
    by (simp add: memory_defaults_def dget_def)
  have "dget ?res ''modules'' PNone
          = PList (map (module_entry (repr_ext e)) (filter (is_module (repr_ext e)) cs))"
    using modules_memory_loop [OF m0] by simp
  then have modules: "dget (memory_used_percent ?res) ''modules'' PNone
          = PList (map (module_entry (repr_ext e)) (filter (is_module (repr_ext e)) cs))"
    by (simp add: dget_memory_used_percent_other)
  from ret total modules show ?thesis by blast
qed

theorem memory_summary_and_modules_witness:
  "\<exists>r. parse_memory_section quiet_env memory_example = Inr r
      \<and> getd r ''total'' = PStr ''15.5 GiB''
      \<and> dget r ''modules'' PNone
          = PList [module_entry (repr_ext quiet_env)
                     [(''Device'', PStr ''DIMM A''), (''size'', PStr ''8 GiB'')]]"
proof -
  have it: "py_iter memory_example
      = Inr [PDict [(''001#1#1#total'', PStr ''15.5 GiB''), (''002#1#1#used'', PStr ''7.2 GiB (46.5%)'')],
             PDict [(''003#1#2#Device'', PStr ''DIMM A''), (''004#1#3#size'', PStr ''8 GiB'')],
             PDict [(''005#1#2#Device'', PStr ''DIMM B''), (''006#1#3#size'', PStr ''No Module Installed'')]]"
    by (simp add: memory_example_def)
  have cl: "map clean_item
       [PDict [(''001#1#1#total'', PStr ''15.5 GiB''), (''002#1#1#used'', PStr ''7.2 GiB (46.5%)'')],
        PDict [(''003#1#2#Device'', PStr ''DIMM A''), (''004#1#3#size'', PStr ''8 GiB'')],
        PDict [(''005#1#2#Device'', PStr ''DIMM B''), (''006#1#3#size'', PStr ''No Module Installed'')]]
      = map Inr
       [[(''total'', PStr ''15.5 GiB''), (''used'', PStr ''7.2 GiB (46.5%)'')],
        [(''Device'', PStr ''DIMM A''), (''size'', PStr ''8 GiB'')],
        [(''Device'', PStr ''DIMM B''), (''size'', PStr ''No Module Installed'')]]"
    by code_simp
  have f: "find (\<lambda>c. is_ram_summary c \<and> names_gib (total_text (repr_ext quiet_env) c))
       [[(''total'', PStr ''15.5 GiB''), (''used'', PStr ''7.2 GiB (46.5%)'')],
        [(''Device'', PStr ''DIMM A''), (''size'', PStr ''8 GiB'')],
        [(''Device'', PStr ''DIMM B''), (''size'', PStr ''No Module Installed'')]]
      = Some [(''total'', PStr ''15.5 GiB''), (''used'', PStr ''7.2 GiB (46.5%)'')]"
    by code_simp
  have t: "total_text (repr_ext quiet_env)
             [(''total'', PStr ''15.5 GiB''), (''used'', PStr ''7.2 GiB (46.5%)'')] = ''15.5 GiB''"
    by code_simp
  have m: "filter (is_module (repr_ext quiet_env))
       [[(''total'', PStr ''15.5 GiB''), (''used'', PStr ''7.2 GiB (46.5%)'')],
        [(''Device'', PStr ''DIMM A''), (''size'', PStr ''8 GiB'')],
        [(''Device'', PStr ''DIMM B''), (''size'', PStr ''No Module Installed'')]]
      = [[(''Device'', PStr ''DIMM A''), (''size'', PStr ''8 GiB'')]]"
    by code_simp
  from memory_summary_and_modules [OF it cl, of quiet_env] show ?thesis
    unfolding f m by (simp add: t)
qed

section \<open>Percentages read from text\<close>












subsection \<open>Memory\<close>





subsection \<open>Disk\<close>













subsection \<open>Battery\<close>








section \<open>The orchestrator\<close>

lemma store_Inr: "store r k p = Inr r' \<longleftrightarrow> (\<exists>record. p = Inr record \<and> r' = dset r k (PDict record))"
  by (auto simp: store_def bindE_eq_Inr)

lemma parse_section_table:
  "parse_section e data r kv =
     (case find (\<lambda>th. str_contains (fst th) (clean_key (fst kv))) (section_table e data (snd kv)) of
        Some th \<Rightarrow> snd th r
      | None \<Rightarrow> Inr r)"
  by (simp add: parse_section_def section_table_def Let_def)

lemma section_table_shape:
  assumes "th \<in> set (section_table e data v)" and "snd th r = Inr r'"
  shows "(\<exists>k record. section_record e data v k record \<and> r' = dset r k (PDict record))
       \<or> (\<exists>info. parse_info_section e v = Inr info \<and> merge_info r (Inr info) = Inr r')"
proof -
  have info: "\<exists>info. parse_info_section e v = Inr info \<and> merge_info r (Inr info) = Inr r'"
    if "merge_info r (parse_info_section e v) = Inr r'"
    using that by (cases "parse_info_section e v") (auto simp: merge_info_def)
  have rec: "\<exists>k record. section_record e data v k record \<and> r' = dset r k (PDict record)"
    if "store r k p = Inr r'" and "\<And>record. p = Inr record \<Longrightarrow> section_record e data v k record" for k p
    using that by (auto simp: store_Inr)
  from assms consider
      "store r ''cpu'' (parse_cpu_section e v) = Inr r'"
    | "store r ''gpu'' (parse_gpu_section v) = Inr r'"
    | "store r ''memory'' (parse_memory_section e v) = Inr r'"
    | "store r ''audio'' (parse_audio_section v) = Inr r'"
    | "store r ''network'' (parse_network_section e v) = Inr r'"
    | "store r ''disk'' (parse_disk_section e v data) = Inr r'"
    | "store r ''system'' (parse_system_section e v) = Inr r'"
    | "store r ''machine'' (parse_machine_section v) = Inr r'"
    | "store r ''battery'' (parse_battery_section e v) = Inr r'"
    | "store r ''sensors'' (parse_sensors_section e v) = Inr r'"
    | "merge_info r (parse_info_section e v) = Inr r'"
    | "store r ''processes'' (parse_processes_section v) = Inr r'"
    | "store r ''repos'' (parse_repos_section e v) = Inr r'"
    | "store r ''usb_inxi'' (parse_usb_section v) = Inr r'"
    | "store r ''bluetooth'' (parse_bluetooth_section v) = Inr r'"
    unfolding section_table_def by auto
  then show ?thesis
  proof cases
    case 11
    then show ?thesis by (simp add: info)
  qed (erule rec [THEN disjI1], simp add: section_record_def)+
qed

lemma parse_section_shape:
  assumes "parse_section e data r kv = Inr r'"
  shows "r' = r
       \<or> (\<exists>k record. section_record e data (snd kv) k record \<and> r' = dset r k (PDict record))
       \<or> (\<exists>info. parse_info_section e (snd kv) = Inr info \<and> merge_info r (Inr info) = Inr r')"
proof (cases "find (\<lambda>th. str_contains (fst th) (clean_key (fst kv))) (section_table e data (snd kv))")
  case None
  with assms show ?thesis by (simp add: parse_section_table)
next
  case (Some th)
  then have "th \<in> set (section_table e data (snd kv))" by (auto simp: find_Some_iff in_set_conv_nth)
  moreover from Some assms have "snd th r = Inr r'" by (simp add: parse_section_table)
  ultimately show ?thesis using section_table_shape by blast
qed

lemma schema_ok_seed: "schema_ok seed"
  by (simp add: schema_ok_def seed_def category_keys_def)

lemma schema_ok_dset: "schema_ok r \<Longrightarrow> schema_ok (dset r k (PDict record))"
  by (simp add: schema_ok_def map_of_dset)

lemma merge_info_shape:
  assumes "merge_info r (Inr info) = Inr r'"
  shows "\<exists>r2 record. r' = dset r2 ''system'' (PDict record) \<and> (r2 = r \<or> r2 = dset r ''system'' (PDict []))"
  using assms
  by (auto simp: merge_info_def Let_def split: pyval.splits if_splits)

text \<open>What the body of the inner loop does to the result, whatever the section.\<close>

lemma parse_section_cases:
  assumes "parse_section e data r kv = Inr r'"
  obtains (skip) "r' = r"
  | (store) k rcd where "section_record e data (snd kv) k rcd" and "r' = dset r k (PDict rcd)"
  | (info) rcd where "r' = dset r ''system'' (PDict rcd)"
  | (info_new) rcd where "r' = dset (dset r ''system'' (PDict [])) ''system'' (PDict rcd)"
  using parse_section_shape [OF assms] merge_info_shape by blast

lemma model_invariant:
  assumes "parse_full e d = Inr r" and "P seed"
    and "\<And>m k v record. P m \<Longrightarrow> section_record e (list_items d) v k record \<Longrightarrow> P (dset m k (PDict record))"
    and "\<And>m record. P m \<Longrightarrow> P (dset m ''system'' (PDict record))"
    and "\<And>m record. P m \<Longrightarrow> P (dset m ''pci_inxi'' (PDict record))"
  shows "P r"
proof (cases "\<not> truthy d \<or> \<not> is_list d")
  case True
  with assms(1,2) show ?thesis by (simp add: parse_full_def)
next
  case False
  with assms(1) obtain res pci
    where loop: "foldE (parse_sections e (list_items d)) seed (list_items d) = Inr res"
      and r: "r = dset res ''pci_inxi'' (PDict pci)"
    by (auto simp: parse_full_def bindE_eq_Inr store_Inr)
  have sec: "P m'" if "parse_section e (list_items d) m kv = Inr m'" "P m" for m kv m'
    using that(1)
  proof (cases rule: parse_section_cases)
    case skip
    with that show ?thesis by simp
  next
    case (store k rcd)
    with that assms(3) show ?thesis by blast
  next
    case (info rcd)
    with that assms(4) show ?thesis by blast
  next
    case (info_new rcd)
    with that assms(4) show ?thesis by blast
  qed
  have secs: "P m'" if "parse_sections e (list_items d) m sct = Inr m'" "P m" for m sct m'
  proof -
    from that(1) obtain kvs where "foldE (parse_section e (list_items d)) m kvs = Inr m'"
      by (auto simp: parse_sections_def bindE_eq_Inr)
    then show ?thesis using that(2) by (rule foldE_invariant) (rule sec; assumption)
  qed
  have "P res"
  proof (rule foldE_invariant [where P = P, OF loop assms(2)])
    fix s x s'
    assume "parse_sections e (list_items d) s x = Inr s'" and "P s"
    then show "P s'" using secs by blast
  qed
  with r assms(5) show ?thesis by blast
qed

lemma parse_full_schema:
  assumes "parse_full e d = Inr r"
  shows "schema_ok r"
  using assms
  by (rule model_invariant [where P = schema_ok]) (simp_all add: schema_ok_seed schema_ok_dset)





section \<open>Documents of the expected shape never raise for their shape\<close>

lemma set_dset: "set (dset d k v) \<subseteq> insert (k, v) (set d)"
  by (induction d) (auto split: if_splits)

lemma clean_pairs_ok:
  "cleaned_ok acc \<Longrightarrow> list_all field_ok kvs \<Longrightarrow> cleaned_ok (clean_pairs acc kvs)"
proof (induction kvs arbitrary: acc)
  case Nil
  then show ?case by simp
next
  case (Cons kv kvs)
  obtain k v where kv: "kv = (k, v)" by (cases kv)
  from Cons.prems have f: "field_ok (k, v)" and rest: "list_all field_ok kvs" by (simp_all add: kv)
  have "cleaned_ok (if absent v then acc else dset acc (clean_key k) v)"
  proof (cases "absent v")
    case True
    with Cons.prems show ?thesis by simp
  next
    case False
    with f have "scalar v" and "clean_key k \<in> set text_keys \<longrightarrow> is_text v"
      by (auto simp: field_ok_def)
    with False Cons.prems(1) show ?thesis
      using set_dset [of acc "clean_key k" v] by (auto simp: cleaned_ok_def)
  qed
  from Cons.IH [OF this rest] show ?case by (simp add: kv)
qed

lemma item_ok_cleans:
  assumes "item_ok item"
  obtains c where "clean_item item = Inr c" and "cleaned_ok c"
proof -
  from assms obtain kvs where item: "item = PDict kvs" and "list_all field_ok kvs"
    by (cases item) auto
  then have "cleaned_ok (clean_pairs [] kvs)"
    by (intro clean_pairs_ok) (simp_all add: cleaned_ok_def)
  with item that show ?thesis by (simp add: clean_item_def)
qed




lemma foldE_total_or:
  assumes "P s"
    and "\<And>s x. x \<in> set xs \<Longrightarrow> P s \<Longrightarrow> (\<exists>s'. f s x = Inr s' \<and> P s') \<or> f s x = Inl ValueError"
  shows "(\<exists>s'. foldE f s xs = Inr s' \<and> P s') \<or> foldE f s xs = Inl ValueError"
  using assms
proof (induction xs arbitrary: s)
  case Nil
  then show ?case by simp
next
  case (Cons x xs)
  from Cons.prems(2) [of x s] Cons.prems(1)
  consider s1 where "f s x = Inr s1" "P s1" | "f s x = Inl ValueError" by auto
  then show ?case
  proof cases
    case 1
    have "(\<exists>s'. foldE f s1 xs = Inr s' \<and> P s') \<or> foldE f s1 xs = Inl ValueError"
      by (rule Cons.IH [OF 1(2)]) (simp add: Cons.prems(2))
    with 1 show ?thesis by simp
  next
    case 2
    then show ?thesis by simp
  qed
qed



lemma items_loop_or:
  assumes its: "list_all item_ok its"
    and f: "\<And>s item. f s item = bindE (clean_item item) (body s)"
    and P: "P s"
    and step: "\<And>s c. cleaned_ok c \<Longrightarrow> P s \<Longrightarrow> (\<exists>s'. body s c = Inr s' \<and> P s') \<or> body s c = Inl ValueError"
  shows "(\<exists>s'. foldE f s its = Inr s' \<and> P s') \<or> foldE f s its = Inl ValueError"
proof (rule foldE_total_or [where P = P, OF P])
  fix s x
  assume x: "x \<in> set its" and s: "P s"
  from its x have "item_ok x" by (simp add: list_all_iff)
  then obtain c where c: "clean_item x = Inr c" "cleaned_ok c" by (rule item_ok_cleans)
  from step [OF c(2) s] c(1)
  show "(\<exists>s'. f s x = Inr s' \<and> P s') \<or> f s x = Inl ValueError" by (simp add: f)
qed


lemma foldE_returns_or:
  assumes "\<And>s x. x \<in> set xs \<Longrightarrow> (\<exists>s'. f s x = Inr s') \<or> f s x = Inl ValueError"
  shows "(\<exists>s'. foldE f s xs = Inr s') \<or> foldE f s xs = Inl ValueError"
proof -
  have "(\<exists>s'. foldE f s xs = Inr s' \<and> True) \<or> foldE f s xs = Inl ValueError"
    by (rule foldE_total_or [where P = "\<lambda>_. True"]) (use assms in auto)
  then show ?thesis by simp
qed

lemma items_returns_or:
  assumes its: "list_all item_ok its"
    and f: "\<And>s item. f s item = bindE (clean_item item) (body s)"
    and step: "\<And>s c. cleaned_ok c \<Longrightarrow> (\<exists>s'. body s c = Inr s') \<or> body s c = Inl ValueError"
  shows "(\<exists>s'. foldE f s its = Inr s') \<or> foldE f s its = Inl ValueError"
proof -
  have "(\<exists>s'. foldE f s its = Inr s' \<and> True) \<or> foldE f s its = Inl ValueError"
    by (rule items_loop_or [OF its f, where P = "\<lambda>_. True"]) (use step in auto)
  then show ?thesis by simp
qed


subsection \<open>CPU\<close>



subsection \<open>Device lists\<close>






subsection \<open>GPU\<close>



subsection \<open>Audio\<close>




subsection \<open>Loops whose body converts text with float\<close>



subsection \<open>Network\<close>




lemma dget_dupdate_keep:
  "dget (dupdate dev kvs) k dflt = (if k \<in> fst ` set kvs then dget (dupdate dev kvs) k dflt else dget dev k dflt)"
  by (simp add: dget_dupdate_other)






subsection \<open>Parsers that read numbers with float\<close>













subsection \<open>Parsers that cannot raise on items\<close>










subsection \<open>The synthesizer on device lists it can read\<close>







subsection \<open>The orchestrator on documents of the expected shape\<close>










section \<open>Items without fields leave the defaults\<close>



lemma copy_field_empty [simp]: "copy_field [] k k' r = r"
  by (simp add: copy_field_def)

lemma copy_fields_empty [simp]: "copy_fields [] pairs r = r"
  by (induction pairs arbitrary: r) (simp_all add: copy_fields_def)

lemma copy_str_empty [simp]: "copy_str repr [] k k' r = r"
  by (simp add: copy_str_def)

lemma getd_empty [simp]: "getd [] k = PStr ''''"
  by (simp add: getd_def dget_def)

lemma dhas_empty [simp]: "\<not> dhas [] k"
  by (simp add: dhas_def)





















section \<open>The returned model\<close>




text \<open>
  C2, as the claim states it, fails: on the empty list and on \<^verbatim>\<open>None\<close> the function
  returns the pre-seeded schema, which has no \<^verbatim>\<open>pci_inxi\<close> key.
\<close>

theorem parse_full_pci_inxi_counterexample:
  "parse_full quiet_env (PList []) = Inr seed
   \<and> parse_full quiet_env PNone = Inr seed
   \<and> \<not> dhas seed ''pci_inxi''"
  by code_simp

text \<open>
  C2, amended. On a non-empty list, whenever \<^verbatim>\<open>parse_full\<close> returns, the mapping has
  the key \<^verbatim>\<open>pci_inxi\<close>, holding a mapping with \<^verbatim>\<open>devices\<close>, a list, and \<^verbatim>\<open>count\<close>,
  its length, in addition to the eleven category keys. On any other input it returns
  the pre-seeded schema, without \<^verbatim>\<open>pci_inxi\<close>.
\<close>

theorem parse_full_pci_inxi:
  assumes "parse_full e d = Inr r"
  shows "if truthy d \<and> is_list d
         then (\<exists>devices. map_of r ''pci_inxi''
                 = Some (PDict [(''devices'', PList devices),
                                (''count'', PInt (int (length devices)))]))
              \<and> schema_ok r
         else r = seed \<and> \<not> dhas r ''pci_inxi''"
proof (cases "truthy d \<and> is_list d")
  case False
  with assms have "r = seed" by (auto simp: parse_full_def)
  moreover have "\<not> dhas seed ''pci_inxi''"
    by (simp add: dhas_def seed_def category_keys_def)
  ultimately show ?thesis using False by (cases "truthy d"; cases "is_list d"; simp)
next
  case True
  with assms obtain res pci
    where pci: "extract_pci_devices res = Inr pci" and r: "r = dset res ''pci_inxi'' (PDict pci)"
    by (auto simp: parse_full_def bindE_eq_Inr store_Inr)
  from pci obtain devices
    where "pci = [(''devices'', PList devices), (''count'', PInt (int (length devices)))]"
    by (auto simp: extract_pci_devices_def bindE_eq_Inr)
  with r have "map_of r ''pci_inxi''
                 = Some (PDict [(''devices'', PList devices),
                                (''count'', PInt (int (length devices)))])"
    by (simp add: map_of_dset)
  with True parse_full_schema [OF assms] show ?thesis by auto
qed

theorem parse_full_pci_inxi_witness:
  "parse_full quiet_env (PList [PDict [(''000#1#0#Unknown'', PInt 1)]])
     = Inr (dset seed ''pci_inxi'' (PDict [(''devices'', PList []), (''count'', PInt 0)]))
   \<and> map_of (dset seed ''pci_inxi'' (PDict [(''devices'', PList []), (''count'', PInt 0)]))
        ''pci_inxi''
      = Some (PDict [(''devices'', PList []), (''count'', PInt 0)])"
proof -
  have r: "parse_full quiet_env (PList [PDict [(''000#1#0#Unknown'', PInt 1)]])
     = Inr (dset seed ''pci_inxi'' (PDict [(''devices'', PList []), (''count'', PInt 0)]))"
    by code_simp
  from parse_full_pci_inxi [OF r] r show ?thesis
    by (simp add: map_of_dset)
qed

section \<open>Percentage fields\<close>




section \<open>Malformed documents\<close>





end
